theory Spec2Isabelle
  imports Complex_Main
begin

section \<open>Run-time values\<close>

text \<open>
  A thrown JavaScript \<^verbatim>\<open>Error\<close>: its message and the optional numeric
  \<^verbatim>\<open>status\<close> property that \<^verbatim>\<open>pollDeviceToken\<close> attaches
  (\<^verbatim>\<open>(error as Error & { status?: number }).status\<close>).
\<close>

record js_error =
  message :: string
  status :: "nat option"

text \<open>JavaScript truthiness of an optional string: \<^verbatim>\<open>undefined\<close>,
  \<^verbatim>\<open>null\<close> and the empty string are falsy.\<close>

definition truthy :: "string option \<Rightarrow> bool" where
  "truthy s = (case s of None \<Rightarrow> False | Some t \<Rightarrow> t \<noteq> [])"

text \<open>\<^verbatim>\<open>a || 'literal'\<close> on an optional string.\<close>

definition or_literal :: "string option \<Rightarrow> string \<Rightarrow> string" where
  "or_literal s d = (case s of None \<Rightarrow> d | Some t \<Rightarrow> if t = [] then d else t)"

text \<open>\<^verbatim>\<open>a || b\<close> on two optional strings, and \<^verbatim>\<open>a || undefined\<close>.\<close>

definition or_string :: "string option \<Rightarrow> string option \<Rightarrow> string option" where
  "or_string a b = (if truthy a then a else b)"

text \<open>Decimal rendering of a number inside a template literal.\<close>

definition digit_char :: "nat \<Rightarrow> char" where
  "digit_char d = char_of (d + 48)"

fun string_of_nat :: "nat \<Rightarrow> string" where
  "string_of_nat n =
     (let last_digit = [digit_char (n mod 10)]
      in if 10 \<le> n then string_of_nat (n div 10) @ last_digit else last_digit)"

declare string_of_nat.simps [simp del]

text \<open>\<^verbatim>\<open>String.prototype.includes\<close>.\<close>

fun str_includes :: "string \<Rightarrow> string \<Rightarrow> bool" where
  "str_includes [] p = (p = [])"
| "str_includes (c # cs) p = (take (length p) (c # cs) = p \<or> str_includes cs p)"

section \<open>Data model of qwenOAuth2.ts\<close>

record ErrorData =
  error :: "string option"
  error_description :: "string option"

record DeltaCredentials =
  access_token :: "string option"
  refresh_token :: "string option"
  id_token :: "string option"
  expiry_date :: "int option"
  token_type :: "string option"
  resource_url :: "string option"

record DeviceAuthorizationData =
  device_code :: string
  user_code :: string
  verification_uri :: string
  verification_uri_complete :: string
  expires_in :: int

datatype DeviceAuthorizationResponse =
  DeviceAuthorization DeviceAuthorizationData
| DeviceAuthorizationError ErrorData

fun isDeviceAuthorizationSuccess :: "DeviceAuthorizationResponse \<Rightarrow> bool" where
  "isDeviceAuthorizationSuccess (DeviceAuthorization d) = True"
| "isDeviceAuthorizationSuccess (DeviceAuthorizationError e) = False"

text \<open>\<^verbatim>\<open>DeviceTokenData\<close>; \<^verbatim>\<open>null\<close> and a missing field are both
  \<open>None\<close>.\<close>

record DeviceTokenData =
  dt_access_token :: "string option"
  dt_refresh_token :: "string option"
  dt_token_type :: string
  dt_expires_in :: "int option"
  dt_scope :: "string option"
  dt_endpoint :: "string option"
  dt_resource_url :: "string option"

text \<open>\<^verbatim>\<open>DeviceTokenPendingData\<close>: the \<^verbatim>\<open>status\<close> field is the constant
  \<^verbatim>\<open>'pending'\<close>, so only \<^verbatim>\<open>slowDown?\<close> is kept.\<close>

record DeviceTokenPendingData =
  slowDown :: "bool option"

datatype DeviceTokenResponse =
  TokenData DeviceTokenData
| PendingData DeviceTokenPendingData
| ErrorResponse ErrorData

fun isDeviceTokenSuccess :: "DeviceTokenResponse \<Rightarrow> bool" where
  "isDeviceTokenSuccess (TokenData d) = truthy (dt_access_token d)"
| "isDeviceTokenSuccess (PendingData p) = False"
| "isDeviceTokenSuccess (ErrorResponse e) = False"

fun isDeviceTokenPending :: "DeviceTokenResponse \<Rightarrow> bool" where
  "isDeviceTokenPending (PendingData p) = True"
| "isDeviceTokenPending (TokenData d) = False"
| "isDeviceTokenPending (ErrorResponse e) = False"

fun isErrorResponse :: "DeviceTokenResponse \<Rightarrow> bool" where
  "isErrorResponse (ErrorResponse e) = True"
| "isErrorResponse (TokenData d) = False"
| "isErrorResponse (PendingData p) = False"

record TokenRefreshData =
  tr_access_token :: "string option"
  tr_token_type :: "string option"
  tr_expires_in :: int
  tr_refresh_token :: "string option"
  tr_resource_url :: "string option"

datatype TokenRefreshResponse =
  RefreshData TokenRefreshData
| RefreshError ErrorData

definition TOKEN_REFRESH_BUFFER_MS :: int where
  "TOKEN_REFRESH_BUFFER_MS = 30 * 1000"

section \<open>The HTTP response object\<close>

text \<open>
  What \<^verbatim>\<open>fetch\<close> resolves to. \<open>body\<close> is the raw body text (\<open>None\<close>: the
  response has a null body) and \<open>parsed\<close> is what \<^verbatim>\<open>JSON.parse\<close> makes of that
  text at the type the caller casts it to (\<open>None\<close>: the text is not JSON).
  \<^verbatim>\<open>response.ok\<close> is the status range 200 to 299.

  By the Fetch standard the body is a one-shot stream: \<^verbatim>\<open>json()\<close> and
  \<^verbatim>\<open>text()\<close> both consume it, and a second read of a consumed body rejects
  with a \<^verbatim>\<open>TypeError\<close>. The flag threaded through the two readers is
  \<^verbatim>\<open>bodyUsed\<close>. A null body is never consumed: it reads as the empty byte
  sequence every time.
\<close>

record 'j Response =
  http_status :: nat
  statusText :: string
  body :: "string option"
  parsed :: "'j option"

definition ok :: "'j Response \<Rightarrow> bool" where
  "ok r = (200 \<le> http_status r \<and> http_status r \<le> 299)"

definition body_unusable :: js_error where
  "body_unusable =
     \<lparr>message = ''Body is unusable: Body has already been read'', status = None\<rparr>"

definition json_syntax_error :: js_error where
  "json_syntax_error = \<lparr>message = ''Unexpected end of JSON input'', status = None\<rparr>"

definition Response_json :: "bool \<Rightarrow> 'j Response \<Rightarrow> (js_error + 'j) \<times> bool" where
  "Response_json bodyUsed r =
     (case body r of
        None \<Rightarrow> (Inl json_syntax_error, bodyUsed)
      | Some t \<Rightarrow>
          if bodyUsed then (Inl body_unusable, bodyUsed)
          else (case parsed r of
                  None \<Rightarrow> (Inl json_syntax_error, True)
                | Some j \<Rightarrow> (Inr j, True)))"

definition Response_text :: "bool \<Rightarrow> 'j Response \<Rightarrow> (js_error + string) \<times> bool" where
  "Response_text bodyUsed r =
     (case body r of
        None \<Rightarrow> (Inr [], bodyUsed)
      | Some t \<Rightarrow>
          if bodyUsed then (Inl body_unusable, bodyUsed)
          else (Inr t, True))"

section \<open>The credential file\<close>

text \<open>
  The file \<^verbatim>\<open>~/.delta/oauth_creds.json\<close> is \<open>None\<close> when it does not exist
  and otherwise holds the record that was serialised into it. An operation on it may
  also fail for a reason of the environment (permissions, a busy or read-only volume);
  the fault, when there is one, is an input of the operation.
\<close>

datatype fs_fault = EACCES | EPERM | EBUSY

datatype fs_error = ENOENT | Fault fs_fault

type_synonym cred_file = "DeltaCredentials option"

definition fs_unlink :: "fs_fault option \<Rightarrow> cred_file \<Rightarrow> fs_error + cred_file" where
  "fs_unlink fault f =
     (case fault of
        Some e \<Rightarrow> Inl (Fault e)
      | None \<Rightarrow> (case f of None \<Rightarrow> Inl ENOENT | Some c \<Rightarrow> Inr None))"

text \<open>\<^verbatim>\<open>clearDeltaCredentials\<close>: every failure of the unlink is swallowed
  (\<^verbatim>\<open>ENOENT\<close> silently, anything else after a warning), so the function always
  returns; the result is the file afterwards.\<close>

definition clearDeltaCredentials :: "fs_fault option \<Rightarrow> cred_file \<Rightarrow> cred_file" where
  "clearDeltaCredentials fault f =
     (case fs_unlink fault f of
        Inr f' \<Rightarrow> f'
      | Inl e \<Rightarrow> (if e = ENOENT then f else f))"

text \<open>\<^verbatim>\<open>cacheDeltaCredentials\<close>: \<^verbatim>\<open>mkdir\<close> then \<^verbatim>\<open>writeFile\<close>, with no
  handler of its own; a failure of either is thrown to the caller.\<close>

definition cacheDeltaCredentials ::
  "js_error option \<Rightarrow> DeltaCredentials \<Rightarrow> cred_file \<Rightarrow> js_error + cred_file" where
  "cacheDeltaCredentials fault credentials f =
     (case fault of Some e \<Rightarrow> Inl e | None \<Rightarrow> Inr (Some credentials))"

section \<open>DeltaOAuth2Client\<close>

text \<open>Effects on the outside world, in the order they happen.\<close>

datatype action =
  Fetch string
| Unlink
| WriteFile DeltaCredentials
| EmitAuthUri
| Emit string
| TickWait rat nat
| Sleep rat
| Cancel

definition QWEN_OAUTH_TOKEN_ENDPOINT :: string where
  "QWEN_OAUTH_TOKEN_ENDPOINT = ''https://chat.delta.ai/api/v1/oauth2/token''"

definition QWEN_OAUTH_DEVICE_CODE_ENDPOINT :: string where
  "QWEN_OAUTH_DEVICE_CODE_ENDPOINT = ''https://chat.delta.ai/api/v1/oauth2/device/code''"

definition isTokenValid :: "int \<Rightarrow> DeltaCredentials \<Rightarrow> bool" where
  "isTokenValid now c =
     (case expiry_date c of
        None \<Rightarrow> False
      | Some e \<Rightarrow> if e = 0 then False else now < e - TOKEN_REFRESH_BUFFER_MS)"

text \<open>
  \<^verbatim>\<open>getAccessToken\<close>. The outcome of
  \<^verbatim>\<open>this.sharedManager.getValidCredentials(this)\<close> is a parameter (\<open>Inl\<close> when it
  rejects), so that the function is described for every behaviour of the shared
  manager. \<open>c\<close> is \<^verbatim>\<open>this.credentials\<close> as it stands when the handler runs.
\<close>

record token_result =
  token :: "string option"


text \<open>
  \<^verbatim>\<open>pollDeviceToken\<close>. The argument is what \<^verbatim>\<open>fetch\<close> settles to
  (\<open>Inl\<close>: the request itself failed). \<open>poll_try\<close> is the body of the
  \<^verbatim>\<open>try\<close> of the non-success branch, \<open>poll_catch\<close> its handler: the handler
  receives whatever the \<^verbatim>\<open>try\<close> threw, the error built by the \<^verbatim>\<open>try\<close>
  itself included, ignores it, and reads the body again as text.
\<close>

definition poll_try ::
  "DeviceTokenResponse Response \<Rightarrow> (js_error + DeviceTokenResponse) \<times> bool" where
  "poll_try response =
     (case Response_json False response of
        (Inl parseError, bodyUsed) \<Rightarrow> (Inl parseError, bodyUsed)
      | (Inr json, bodyUsed) \<Rightarrow>
          (let errorData = (case json of ErrorResponse e \<Rightarrow> e
                            | TokenData d \<Rightarrow> \<lparr>error = None, error_description = None\<rparr>
                            | PendingData p \<Rightarrow> \<lparr>error = None, error_description = None\<rparr>)
           in if http_status response = 400 \<and> error errorData = Some ''authorization_pending''
              then (Inr (PendingData \<lparr>slowDown = None\<rparr>), bodyUsed)
              else if http_status response = 429 \<and> error errorData = Some ''slow_down''
              then (Inr (PendingData \<lparr>slowDown = Some True\<rparr>), bodyUsed)
              else (Inl \<lparr>message = ''Device token poll failed: ''
                            @ or_literal (error errorData) ''Unknown error'' @ '' - ''
                            @ or_literal (error_description errorData) ''No details provided'',
                          status = Some (http_status response)\<rparr>, bodyUsed)))"

definition poll_catch ::
  "bool \<Rightarrow> DeviceTokenResponse Response \<Rightarrow> js_error + DeviceTokenResponse" where
  "poll_catch bodyUsed response =
     (case Response_text bodyUsed response of
        (Inl e, u) \<Rightarrow> Inl e
      | (Inr errorData, u) \<Rightarrow>
          Inl \<lparr>message = ''Device token poll failed: '' @ string_of_nat (http_status response)
                  @ '' '' @ statusText response @ ''. Response: '' @ errorData,
               status = Some (http_status response)\<rparr>)"

definition pollDeviceToken ::
  "js_error + DeviceTokenResponse Response \<Rightarrow> js_error + DeviceTokenResponse" where
  "pollDeviceToken fetched =
     (case fetched of
        Inl e \<Rightarrow> Inl e
      | Inr response \<Rightarrow>
          if \<not> ok response then
            (case poll_try response of
               (Inr r, bodyUsed) \<Rightarrow> Inr r
             | (Inl thrown, bodyUsed) \<Rightarrow> poll_catch bodyUsed response)
          else fst (Response_json False response))"

text \<open>
  \<^verbatim>\<open>refreshAccessToken\<close>, on \<^verbatim>\<open>this.credentials\<close> and the credential file.
  The result carries the new \<^verbatim>\<open>this.credentials\<close>, the file afterwards and the
  effects performed. \<open>fault\<close> is the fault, if any, that the unlink of
  \<^verbatim>\<open>clearDeltaCredentials\<close> meets.
\<close>

definition refreshAccessToken ::
  "int \<Rightarrow> fs_fault option \<Rightarrow> js_error + TokenRefreshResponse Response \<Rightarrow>
   DeltaCredentials \<Rightarrow> cred_file \<Rightarrow>
   (js_error + TokenRefreshResponse) \<times> DeltaCredentials \<times> cred_file \<times> action list" where
  "refreshAccessToken now fault fetched c f =
     (if \<not> truthy (refresh_token c)
      then (Inl \<lparr>message = ''No refresh token available'', status = None\<rparr>, c, f, [])
      else
        (case fetched of
           Inl e \<Rightarrow> (Inl e, c, f, [Fetch QWEN_OAUTH_TOKEN_ENDPOINT])
         | Inr response \<Rightarrow>
             if \<not> ok response then
               (case Response_text False response of
                  (Inl e, u) \<Rightarrow> (Inl e, c, f, [Fetch QWEN_OAUTH_TOKEN_ENDPOINT])
                | (Inr errorData, u) \<Rightarrow>
                    if http_status response = 400
                    then (Inl \<lparr>message = ''Refresh token expired or invalid. ''
                                   @ ''Please use '' @ [CHR 0x27] @ ''/auth'' @ [CHR 0x27]
                                   @ '' to re-authenticate.'',
                                 status = None\<rparr>,
                          c, clearDeltaCredentials fault f,
                          [Fetch QWEN_OAUTH_TOKEN_ENDPOINT, Unlink])
                    else (Inl \<lparr>message = ''Token refresh failed: ''
                                   @ string_of_nat (http_status response) @ '' ''
                                   @ statusText response @ ''. Response: '' @ errorData,
                                 status = None\<rparr>,
                          c, f, [Fetch QWEN_OAUTH_TOKEN_ENDPOINT]))
             else
               (case Response_json False response of
                  (Inl e, u) \<Rightarrow> (Inl e, c, f, [Fetch QWEN_OAUTH_TOKEN_ENDPOINT])
                | (Inr responseData, u) \<Rightarrow>
                    (case responseData of
                       RefreshError errorData \<Rightarrow>
                         (Inl \<lparr>message = ''Token refresh failed: ''
                                   @ or_literal (error errorData) ''Unknown error'' @ '' - ''
                                   @ or_literal (error_description errorData)
                                       ''No details provided'',
                                status = None\<rparr>,
                          c, f, [Fetch QWEN_OAUTH_TOKEN_ENDPOINT])
                     | RefreshData tokenData \<Rightarrow>
                         (Inr responseData,
                          \<lparr>access_token = tr_access_token tokenData,
                           refresh_token =
                             or_string (tr_refresh_token tokenData) (refresh_token c),
                           id_token = None,
                           expiry_date = Some (now + tr_expires_in tokenData * 1000),
                           token_type = tr_token_type tokenData,
                           resource_url = tr_resource_url tokenData\<rparr>,
                          f, [Fetch QWEN_OAUTH_TOKEN_ENDPOINT])))))"

section \<open>authWithDeltaDeviceFlow\<close>

datatype AuthReason = reason_timeout | reason_cancelled | reason_error | reason_rate_limit

datatype AuthResult = AuthSuccess | AuthFailure AuthReason

text \<open>
  The variables of the flow: the flag set by the \<^verbatim>\<open>AuthCancel\<close> listener, the
  poll interval in milliseconds (a JavaScript number; every value it takes here is
  exact), \<^verbatim>\<open>this.credentials\<close> of the client, the credential file, and the
  effects so far. In the effects, \<open>Fetch QWEN_OAUTH_TOKEN_ENDPOINT\<close> is one poll request,
  \<open>Emit\<close> an \<^verbatim>\<open>AuthProgress\<close> event with its status, \<open>TickWait i t\<close> the
  100 ms tick loop run with interval \<open>i\<close> for \<open>t\<close> ms, \<open>Sleep i\<close> the plain timer of
  the error path, and \<open>Cancel\<close> the moment the listener sets the flag. Console output
  and the browser launch change none of these and are left out.
\<close>

record flow_state =
  isCancelled :: bool
  pollInterval :: rat
  credentials :: DeltaCredentials
  disk :: cred_file
  trace :: "action list"

text \<open>
  What the environment does during one iteration of the polling loop: what
  \<^verbatim>\<open>client.pollDeviceToken\<close> settles to, the clock, the fault (if any) met by
  \<^verbatim>\<open>cacheDeltaCredentials\<close>, and whether the user cancels while the poll request
  is awaited, while the file is written, or \<open>t\<close> ms into the wait that follows.
\<close>

record attempt_env =
  poll_outcome :: "js_error + DeviceTokenResponse"
  cancel_in_poll :: bool
  date_now :: int
  write_fault :: "js_error option"
  cancel_in_write :: bool
  cancel_in_wait :: "nat option"

definition trace_add :: "action list \<Rightarrow> flow_state \<Rightarrow> flow_state" where
  "trace_add as s = s\<lparr>trace := trace s @ as\<rparr>"

definition cancel_if :: "bool \<Rightarrow> flow_state \<Rightarrow> flow_state" where
  "cancel_if fired s = (if fired then trace_add [Cancel] (s\<lparr>isCancelled := True\<rparr>) else s)"

text \<open>
  The wait after a pending response: a \<^verbatim>\<open>setInterval\<close> callback every 100 ms
  that adds 100 to \<^verbatim>\<open>elapsedTime\<close>, stops when the flag is set, and otherwise
  stops once \<^verbatim>\<open>elapsedTime >= pollInterval\<close>. The result is the flag and the
  elapsed time when the promise resolves.
\<close>

function wait_ticks :: "rat \<Rightarrow> nat option \<Rightarrow> bool \<Rightarrow> nat \<Rightarrow> bool \<times> nat" where
  "wait_ticks interval cancel_at cancelled elapsedTime =
     (let elapsedTime' = elapsedTime + 100;
          cancelled' = (cancelled \<or> (case cancel_at of None \<Rightarrow> False
                                       | Some t \<Rightarrow> t \<le> elapsedTime'))
      in if cancelled' then (True, elapsedTime')
         else if interval \<le> of_nat elapsedTime' then (False, elapsedTime')
         else wait_ticks interval cancel_at cancelled' elapsedTime')"
  by pat_completeness auto
termination
proof (relation "measure (\<lambda>(i :: rat, c :: nat option, b :: bool, e :: nat). nat \<lceil>i\<rceil> - e)",
    goal_cases)
  case 1
  show ?case by simp
next
  case (2 interval cancel_at cancelled elapsedTime x xa)
  from 2 have "of_int (int (elapsedTime + 100)) < interval" by simp
  then have "int (elapsedTime + 100) < \<lceil>interval\<rceil>"
    by (simp only: less_ceiling_iff)
  with 2 show ?case by simp
qed

declare wait_ticks.simps [simp del]

text \<open>The \<^verbatim>\<open>catch\<close> block of the loop body: classification by message text or
  status, then (for any other error) the cancellation check and a plain
  \<^verbatim>\<open>setTimeout\<close> of the current interval. \<open>None\<close> is "go on with the loop".\<close>

definition poll_catch_block ::
  "attempt_env \<Rightarrow> js_error \<Rightarrow> flow_state \<Rightarrow> AuthResult option \<times> flow_state" where
  "poll_catch_block e err s =
     (let errorMessage = message err; statusCode = status err
      in if str_includes errorMessage ''401'' \<or> statusCode = Some 401
         then (Some (AuthFailure reason_error), trace_add [Emit ''error''] s)
         else if str_includes errorMessage ''429'' \<or> statusCode = Some 429
         then (Some (AuthFailure reason_rate_limit), trace_add [Emit ''rate_limit''] s)
         else
           (let s1 = trace_add [Emit ''error''] s
            in if isCancelled s1 then (Some (AuthFailure reason_cancelled), s1)
               else (None,
                     trace_add [Sleep (pollInterval s1)]
                       (cancel_if (case cancel_in_wait e of None \<Rightarrow> False
                                   | Some t \<Rightarrow> of_nat t \<le> pollInterval s1) s1))))"

text \<open>The error thrown inside the \<^verbatim>\<open>try\<close> for an error-shaped response.\<close>

definition token_polling_failed :: "ErrorData \<Rightarrow> js_error" where
  "token_polling_failed errorData =
     \<lparr>message = ''Token polling failed: ''
        @ or_literal (error errorData) ''Unknown error'' @ '' - ''
        @ or_literal (error_description errorData) ''No details provided'',
      status = None\<rparr>"

text \<open>The credential record built from a successful token response.\<close>

definition credentials_of :: "int \<Rightarrow> DeviceTokenData \<Rightarrow> DeltaCredentials" where
  "credentials_of now tokenData =
     \<lparr>access_token = dt_access_token tokenData,
      refresh_token = or_string (dt_refresh_token tokenData) None,
      id_token = None,
      expiry_date = (case dt_expires_in tokenData of
                       None \<Rightarrow> None
                     | Some n \<Rightarrow> if n = 0 then None else Some (now + n * 1000)),
      token_type = Some (dt_token_type tokenData),
      resource_url = dt_resource_url tokenData\<rparr>"

text \<open>The interval after a pending response: \<^verbatim>\<open>Math.min(pollInterval * 1.5, 10000)\<close>
  when \<^verbatim>\<open>slowDown\<close> is truthy, the default 2000 otherwise.\<close>

definition next_pollInterval :: "rat \<Rightarrow> DeviceTokenPendingData \<Rightarrow> rat" where
  "next_pollInterval interval pendingData =
     (if slowDown pendingData = Some True then min (interval * 1.5) 10000 else 2000)"

text \<open>
  One iteration of the loop after its cancellation check: the poll request and the
  \<^verbatim>\<open>try\<close> block. The three type guards are tried in the order of the source;
  on the union type they are the three constructors, with the access token of a
  \<open>TokenData\<close> required to be a non-empty string. A \<open>TokenData\<close> that fails the guard
  matches no branch and the loop goes on at once.
\<close>

definition poll_attempt :: "attempt_env \<Rightarrow> flow_state \<Rightarrow> AuthResult option \<times> flow_state" where
  "poll_attempt e s0 =
     (let s = cancel_if (cancel_in_poll e) (trace_add [Fetch QWEN_OAUTH_TOKEN_ENDPOINT] s0)
      in case poll_outcome e of
           Inl err \<Rightarrow> poll_catch_block e err s
         | Inr tokenResponse \<Rightarrow>
             (case tokenResponse of
                TokenData tokenData \<Rightarrow>
                  if isDeviceTokenSuccess tokenResponse then
                    (let credentials = credentials_of (date_now e) tokenData;
                         s1 = cancel_if (cancel_in_write e) (s\<lparr>credentials := credentials\<rparr>)
                     in case cacheDeltaCredentials (write_fault e) credentials (disk s1) of
                          Inl err \<Rightarrow> poll_catch_block e err s1
                        | Inr f \<Rightarrow>
                            (Some AuthSuccess,
                             trace_add [WriteFile credentials, Emit ''success''] (s1\<lparr>disk := f\<rparr>)))
                  else (None, s)
              | PendingData pendingData \<Rightarrow>
                  (let s1 = s\<lparr>pollInterval :=
                               next_pollInterval (pollInterval s) pendingData\<rparr>;
                       s2 = trace_add [Emit ''polling''] s1;
                       (cancelled, elapsedTime) =
                          wait_ticks (pollInterval s2) (cancel_in_wait e) (isCancelled s2) 0;
                       s3 = trace_add [TickWait (pollInterval s2) elapsedTime]
                              (cancel_if (cancelled \<and> \<not> isCancelled s2) s2)
                   in if isCancelled s3
                      then (Some (AuthFailure reason_cancelled), trace_add [Emit ''error''] s3)
                      else (None, s3))
              | ErrorResponse errorData \<Rightarrow>
                  poll_catch_block e (token_polling_failed errorData) s))"

text \<open>The \<^verbatim>\<open>for\<close> loop. \<open>None\<close>: the loop ran out of attempts.\<close>

function poll_loop ::
  "(nat \<Rightarrow> attempt_env) \<Rightarrow> int \<Rightarrow> nat \<Rightarrow> flow_state \<Rightarrow> AuthResult option \<times> flow_state" where
  "poll_loop env maxAttempts attempt s =
     (if int attempt < maxAttempts then
        if isCancelled s
        then (Some (AuthFailure reason_cancelled), trace_add [Emit ''error''] s)
        else (case poll_attempt (env attempt) s of
                (Some r, s') \<Rightarrow> (Some r, s')
              | (None, s') \<Rightarrow> poll_loop env maxAttempts (attempt + 1) s')
      else (None, s))"
  by pat_completeness auto
termination
  by (relation "measure (\<lambda>(env, m, a, s). nat (m - int a))") auto

declare poll_loop.simps [simp del]

text \<open>
  The whole flow. \<open>device_auth\<close> is what \<^verbatim>\<open>client.requestDeviceAuthorization\<close>
  settles to, \<open>cancel_before_poll\<close> says whether the user cancels before the loop
  starts, \<open>attempts\<close> gives the environment of each iteration. Any error thrown outside
  the loop's own \<^verbatim>\<open>try\<close> ends in the outer handler.
\<close>

record flow_env =
  device_auth :: "js_error + DeviceAuthorizationResponse"
  cancel_before_poll :: bool
  attempts :: "nat \<Rightarrow> attempt_env"

definition maxAttempts_of :: "rat \<Rightarrow> DeviceAuthorizationData \<Rightarrow> int" where
  "maxAttempts_of interval deviceAuth = \<lceil>of_int (expires_in deviceAuth) / (interval / 1000)\<rceil>"

definition authWithDeltaDeviceFlow ::
  "flow_env \<Rightarrow> DeltaCredentials \<Rightarrow> cred_file \<Rightarrow> AuthResult \<times> flow_state" where
  "authWithDeltaDeviceFlow env c f =
     (let s0 = \<lparr>isCancelled = False, pollInterval = 2000, credentials = c, disk = f,
                trace = [Fetch QWEN_OAUTH_DEVICE_CODE_ENDPOINT]\<rparr>
      in case device_auth env of
           Inl err \<Rightarrow> (AuthFailure reason_error, s0)
         | Inr (DeviceAuthorizationError errorData) \<Rightarrow> (AuthFailure reason_error, s0)
         | Inr (DeviceAuthorization deviceAuth) \<Rightarrow>
             (let s1 = trace_add [Emit ''polling'']
                         (cancel_if (cancel_before_poll env) (trace_add [EmitAuthUri] s0));
                  maxAttempts = maxAttempts_of (pollInterval s1) deviceAuth
              in case poll_loop (attempts env) maxAttempts 0 s1 of
                   (Some r, s') \<Rightarrow> (r, s')
                 | (None, s') \<Rightarrow> (AuthFailure reason_timeout, trace_add [Emit ''timeout''] s')))"

section \<open>Observations on a run of the flow\<close>

text \<open>One poll request, and the number of them among the effects.\<close>

definition poll_request :: action where
  "poll_request = Fetch QWEN_OAUTH_TOKEN_ENDPOINT"

definition polls :: "action list \<Rightarrow> nat" where
  "polls tr = length (filter (\<lambda>a. a = poll_request) tr)"



text \<open>The intervals of the waits of a run, in order.\<close>

fun wait_intervals :: "action list \<Rightarrow> rat list" where
  "wait_intervals [] = []"
| "wait_intervals (TickWait i t # as) = i # wait_intervals as"
| "wait_intervals (Sleep i # as) = i # wait_intervals as"
| "wait_intervals (a # as) = wait_intervals as"

text \<open>The time each wait of a run lasted, in milliseconds and in order: for the tick
  loop the value of \<^verbatim>\<open>elapsedTime\<close> when the promise resolves, for the plain
  timer its delay.\<close>

fun wait_times :: "action list \<Rightarrow> rat list" where
  "wait_times [] = []"
| "wait_times (TickWait i t # as) = of_nat t # wait_times as"
| "wait_times (Sleep i # as) = i # wait_times as"
| "wait_times (a # as) = wait_times as"

text \<open>An error that the \<^verbatim>\<open>catch\<close> block does not classify as 401 or 429, so
  that the loop retries after it.\<close>

definition retried :: "js_error \<Rightarrow> bool" where
  "retried err =
     (\<not> str_includes (message err) ''401'' \<and> status err \<noteq> Some 401
      \<and> \<not> str_includes (message err) ''429'' \<and> status err \<noteq> Some 429)"

text \<open>An iteration during which the user does not cancel.\<close>

definition quiet :: "attempt_env \<Rightarrow> bool" where
  "quiet e = (\<not> cancel_in_poll e \<and> \<not> cancel_in_write e \<and> cancel_in_wait e = None)"

text \<open>An iteration that neither brings a success response nor ends the flow in
  another way.\<close>

definition goes_on :: "attempt_env \<Rightarrow> bool" where
  "goes_on e =
     (quiet e \<and>
      (case poll_outcome e of
         Inl err \<Rightarrow> retried err
       | Inr (TokenData d) \<Rightarrow> \<not> isDeviceTokenSuccess (TokenData d)
       | Inr (PendingData p) \<Rightarrow> True
       | Inr (ErrorResponse errorData) \<Rightarrow> retried (token_polling_failed errorData)))"

section \<open>SharedTokenManager\<close>

text \<open>Modelled from the spec: the error taxonomy of \<^verbatim>\<open>sharedTokenManager.ts\<close>, which
  is not among the sources (section 7 of the specification; the first three names
  also occur in \<^verbatim>\<open>getDeltaOAuthClient\<close>).\<close>

datatype TokenError =
  NO_REFRESH_TOKEN | REFRESH_FAILED | NETWORK_ERROR | LOCK_TIMEOUT | FILE_ERROR

text \<open>Modelled from the spec: the Memory Cache Entry of section 3 (the manager's
  \<^verbatim>\<open>memoryCache\<close>, whose class is not among the sources).\<close>

record MemoryCache =
  cache_credentials :: "DeltaCredentials option"
  fileModTime :: int
  lastCheckedAt :: int

text \<open>Modelled from the spec: the credential file as the Credential Store of
  section 4.1 sees it, with its modification time.\<close>

record Store =
  content :: cred_file
  mtime :: int

text \<open>Modelled from the spec: what the environment contributes to one call of
  \<^verbatim>\<open>getValidCredentials(client, forceRefresh)\<close>: the outcome of a refresh already
  in flight in this process (if there is one), the record held by \<open>client\<close>, the
  clock, whether \<^verbatim>\<open>acquireLock\<close> ends in \<open>Held\<close>, the record and modification
  time another process wrote while this one waited for the lock (if any), what the
  token endpoint answers, the fault met by an unlink, and the modification time the
  file gets when this process saves.\<close>

record manager_env =
  in_flight :: "(TokenError + DeltaCredentials) option"
  client_credentials :: DeltaCredentials
  clock :: int
  lock_held :: bool
  other_process :: "(DeltaCredentials \<times> int) option"
  refresh_fetched :: "js_error + TokenRefreshResponse Response"
  unlink_fault :: "fs_fault option"
  saved_mtime :: int

text \<open>Modelled from the spec: the effects of the manager, which wrap those of the
  client and add the lock of section 4.1 and the save through the Store.\<close>

datatype manager_action = AcquireLock | ReleaseLock | Client action | Save DeltaCredentials

text \<open>Modelled from the spec: "the cached record's \<^verbatim>\<open>expiry_date\<close> is more than a
  fixed safety buffer (30s) in the future" (section 4.2, step 3).\<close>

definition fresh :: "int \<Rightarrow> DeltaCredentials \<Rightarrow> bool" where
  "fresh t c = (case expiry_date c of None \<Rightarrow> False | Some e \<Rightarrow> t + 30 * 1000 < e)"

text \<open>Modelled from the spec: step 2 of section 4.2, "stat the credential file; if its
  modification time is newer than the cached value, reload from disk and adopt it as
  the in-memory cache". An absent file is the normal not-found case and changes
  nothing.\<close>

definition reload_if_newer :: "int \<Rightarrow> Store \<Rightarrow> MemoryCache \<Rightarrow> MemoryCache" where
  "reload_if_newer t store cache =
     (case content store of
        None \<Rightarrow> cache\<lparr>lastCheckedAt := t\<rparr>
      | Some c \<Rightarrow>
          if fileModTime cache < mtime store
          then \<lparr>cache_credentials = Some c, fileModTime = mtime store, lastCheckedAt = t\<rparr>
          else cache\<lparr>lastCheckedAt := t\<rparr>)"

text \<open>Modelled from the spec: the network part of step 4, "call the OAuth Protocol
  Client's refresh operation, persist the result through the Store, update the
  in-memory cache, release the lock, and return the new record", with the wrapping of
  step 5. The refresh operation is \<open>refreshAccessToken\<close> of the client, run on the
  cached record.\<close>

definition refresh_over_network ::
  "manager_env \<Rightarrow> DeltaCredentials \<Rightarrow> MemoryCache \<Rightarrow> Store \<Rightarrow>
   (TokenError + DeltaCredentials) \<times> MemoryCache \<times> Store \<times> manager_action list" where
  "refresh_over_network env cred cache store =
     (case refreshAccessToken (clock env) (unlink_fault env) (refresh_fetched env) cred
             (content store) of
        (Inl e, c', f', effects) \<Rightarrow>
          (Inl (case refresh_fetched env of Inl t \<Rightarrow> NETWORK_ERROR | Inr r \<Rightarrow> REFRESH_FAILED),
           cache, store\<lparr>content := f'\<rparr>,
           AcquireLock # map Client effects @ [ReleaseLock])
      | (Inr r, c', f', effects) \<Rightarrow>
          (Inr c',
           \<lparr>cache_credentials = Some c', fileModTime = saved_mtime env,
            lastCheckedAt = clock env\<rparr>,
           \<lparr>content = Some c', mtime = saved_mtime env\<rparr>,
           AcquireLock # map Client effects @ [Save c', ReleaseLock]))"

text \<open>Modelled from the spec: step 4 of section 4.2, "a refresh is required: fail fast
  with \<^verbatim>\<open>NO_REFRESH_TOKEN\<close> if the record lacks a refresh token. Otherwise acquire the
  cross-process lock, re-check freshness after acquiring it (another process may have
  refreshed while this one waited for the lock; if so, adopt that result and skip the
  network call)", then the network part; a lock that is not obtained is
  \<^verbatim>\<open>LOCK_TIMEOUT\<close>. "The record" is the cached one; when nothing is cached it is
  the record held by the client of the call, which is how the manager's tests reach
  a refresh from an empty cache.\<close>

definition refresh_required ::
  "manager_env \<Rightarrow> bool \<Rightarrow> MemoryCache \<Rightarrow> Store \<Rightarrow>
   (TokenError + DeltaCredentials) \<times> MemoryCache \<times> Store \<times> manager_action list" where
  "refresh_required env forceRefresh cache store =
     (let cred = (case cache_credentials cache of
                    None \<Rightarrow> client_credentials env
                  | Some cached \<Rightarrow> cached)
      in if \<not> truthy (refresh_token cred) then (Inl NO_REFRESH_TOKEN, cache, store, [])
         else if \<not> lock_held env then (Inl LOCK_TIMEOUT, cache, store, [])
         else
           (let store1 = (case other_process env of
                            None \<Rightarrow> store
                          | Some (c, m) \<Rightarrow> \<lparr>content = Some c, mtime = m\<rparr>);
                cache1 = reload_if_newer (clock env) store1 cache
            in case cache_credentials cache1 of
                 None \<Rightarrow> refresh_over_network env cred cache1 store1
               | Some current \<Rightarrow>
                   if \<not> forceRefresh \<and> fresh (clock env) current
                   then (Inr current, cache1, store1, [AcquireLock, ReleaseLock])
                   else refresh_over_network env current cache1 store1))"

text \<open>Modelled from the spec: \<^verbatim>\<open>SharedTokenManager.getValidCredentials\<close>, steps 1 to
  3 of section 4.2 followed by the refresh of step 4. The class is imported by
  \<^verbatim>\<open>qwenOAuth2.ts\<close> from \<^verbatim>\<open>sharedTokenManager.ts\<close>, which is not among the
  sources; only its tests are.\<close>

definition getValidCredentials ::
  "manager_env \<Rightarrow> bool \<Rightarrow> MemoryCache \<Rightarrow> Store \<Rightarrow>
   (TokenError + DeltaCredentials) \<times> MemoryCache \<times> Store \<times> manager_action list" where
  "getValidCredentials env forceRefresh cache store =
     (case in_flight env of
        Some outcome \<Rightarrow> (outcome, cache, store, [])
      | None \<Rightarrow>
          (let cache1 = reload_if_newer (clock env) store cache
           in case cache_credentials cache1 of
                Some cred \<Rightarrow>
                  if \<not> forceRefresh \<and> fresh (clock env) cred
                  then (Inr cred, cache1, store, [])
                  else refresh_required env forceRefresh cache1 store
              | None \<Rightarrow> refresh_required env forceRefresh cache1 store))"

text \<open>The number of requests sent to the network among the effects of the manager.\<close>

definition network_calls :: "manager_action list \<Rightarrow> nat" where
  "network_calls effects = length (filter (\<lambda>a. \<exists>url. a = Client (Fetch url)) effects)"

section \<open>Sample values\<close>

definition sample_credentials :: DeltaCredentials where
  "sample_credentials =
     \<lparr>access_token = Some ''a1'', refresh_token = Some ''r1'', id_token = None,
      expiry_date = Some 100000, token_type = Some ''Bearer'', resource_url = None\<rparr>"

definition sample_refresh_response :: "nat \<Rightarrow> TokenRefreshResponse Response" where
  "sample_refresh_response code =
     \<lparr>http_status = code, statusText = ''Bad Request'', body = Some ''invalid_grant'',
      parsed = None\<rparr>"

definition no_credentials :: DeltaCredentials where
  "no_credentials =
     \<lparr>access_token = None, refresh_token = None, id_token = None, expiry_date = None,
      token_type = None, resource_url = None\<rparr>"

definition sample_token :: DeviceTokenData where
  "sample_token =
     \<lparr>dt_access_token = Some ''a2'', dt_refresh_token = Some ''r2'',
      dt_token_type = ''Bearer'', dt_expires_in = Some 3600, dt_scope = None,
      dt_endpoint = None, dt_resource_url = None\<rparr>"

definition sample_attempt :: "js_error + DeviceTokenResponse \<Rightarrow> attempt_env" where
  "sample_attempt outcome =
     \<lparr>poll_outcome = outcome, cancel_in_poll = False, date_now = 1000, write_fault = None,
      cancel_in_write = False, cancel_in_wait = None\<rparr>"

definition sample_device_auth :: DeviceAuthorizationData where
  "sample_device_auth =
     \<lparr>device_code = ''dc'', user_code = ''uc'', verification_uri = ''https://chat.delta.ai'',
      verification_uri_complete = ''https://chat.delta.ai/?user_code=uc'', expires_in = 10\<rparr>"

definition sample_flow :: "(nat \<Rightarrow> attempt_env) \<Rightarrow> flow_env" where
  "sample_flow as =
     \<lparr>device_auth = Inr (DeviceAuthorization sample_device_auth), cancel_before_poll = False,
      attempts = as\<rparr>"

definition backoff_attempts :: "nat \<Rightarrow> attempt_env" where
  "backoff_attempts i =
     (if i = 0 then sample_attempt (Inr (PendingData \<lparr>slowDown = None\<rparr>))
      else if i = 1 then sample_attempt (Inr (PendingData \<lparr>slowDown = Some True\<rparr>))
      else sample_attempt (Inr (TokenData sample_token)))"

definition pending_attempts :: "nat \<Rightarrow> attempt_env" where
  "pending_attempts i = sample_attempt (Inr (PendingData \<lparr>slowDown = None\<rparr>))"



definition zero_lifetime_attempts :: "nat \<Rightarrow> attempt_env" where
  "zero_lifetime_attempts i =
     sample_attempt (Inr (TokenData (sample_token\<lparr>dt_expires_in := Some 0\<rparr>)))"

definition sample_manager_env :: manager_env where
  "sample_manager_env =
     \<lparr>in_flight = None, client_credentials = sample_credentials, clock = 50000,
      lock_held = True, other_process = None,
      refresh_fetched = Inr \<lparr>http_status = 200, statusText = ''OK'', body = Some ''{}'',
        parsed = Some (RefreshData \<lparr>tr_access_token = Some ''a2'',
          tr_token_type = Some ''Bearer'', tr_expires_in = 3600,
          tr_refresh_token = Some ''r2'', tr_resource_url = None\<rparr>)\<rparr>,
      unlink_fault = None, saved_mtime = 2000\<rparr>"

definition sample_cache :: "DeltaCredentials \<Rightarrow> MemoryCache" where
  "sample_cache c = \<lparr>cache_credentials = Some c, fileModTime = 1000, lastCheckedAt = 0\<rparr>"

definition sample_store :: "DeltaCredentials \<Rightarrow> Store" where
  "sample_store c = \<lparr>content = Some c, mtime = 1000\<rparr>"

section \<open>The token endpoint: polling and refresh\<close>

lemma poll_authorization_pending:
  "pollDeviceToken (Inr \<lparr>http_status = 400, statusText = st, body = Some t,
       parsed = Some (ErrorResponse \<lparr>error = Some ''authorization_pending'',
                                       error_description = d\<rparr>)\<rparr>)
     = Inr (PendingData \<lparr>slowDown = None\<rparr>)"
  by (simp add: pollDeviceToken_def poll_try_def Response_json_def ok_def)

lemma poll_slow_down:
  "pollDeviceToken (Inr \<lparr>http_status = 429, statusText = st, body = Some t,
       parsed = Some (ErrorResponse \<lparr>error = Some ''slow_down'',
                                       error_description = d\<rparr>)\<rparr>)
     = Inr (PendingData \<lparr>slowDown = Some True\<rparr>)"
  by (simp add: pollDeviceToken_def poll_try_def Response_json_def ok_def)

lemma poll_try_consumes_body:
  "body r = Some t \<Longrightarrow> snd (poll_try r) = True"
  by (simp add: poll_try_def Response_json_def Let_def split: option.splits)

lemma poll_failure_with_body:
  assumes "\<not> ok r" and "body r = Some t" and "pollDeviceToken (Inr r) = Inl e"
  shows "e = body_unusable"
proof -
  have used: "snd (poll_try r) = True"
    using assms(2) by (rule poll_try_consumes_body)
  obtain x u where pt: "poll_try r = (x, u)" by (cases "poll_try r")
  with used have u: "u = True" by simp
  show ?thesis
  proof (cases x)
    case (Inr p)
    with assms(1,3) pt show ?thesis by (simp add: pollDeviceToken_def)
  next
    case (Inl thrown)
    with assms pt u show ?thesis
      by (simp add: pollDeviceToken_def poll_catch_def Response_text_def)
  qed
qed

lemma poll_failure_null_body:
  assumes "\<not> ok r" and "body r = None"
  shows "\<exists>e. pollDeviceToken (Inr r) = Inl e \<and> status e = Some (http_status r)"
  using assms
  by (simp add: pollDeviceToken_def poll_try_def poll_catch_def Response_json_def
      Response_text_def)

text \<open>
  C5. Of the three classifications, the third does not hold: a non-success response
  that is neither of the two pending cases and has a body (here HTTP 401 with the
  JSON error \<^verbatim>\<open>expired_token\<close>) makes \<^verbatim>\<open>pollDeviceToken\<close> reject with the
  \<^verbatim>\<open>TypeError\<close> of the second body read, which has no \<^verbatim>\<open>status\<close>: the
  status-carrying error built in the \<^verbatim>\<open>try\<close> is caught by the function's own
  handler, and the handler's \<^verbatim>\<open>response.text()\<close> fails before the replacement
  error is built. Only a response without a body reaches that replacement error.
\<close>

theorem pollDeviceToken_401_without_status:
  "pollDeviceToken (Inr \<lparr>http_status = 401, statusText = ''Unauthorized'', body = Some t,
       parsed = Some (ErrorResponse \<lparr>error = Some ''expired_token'',
                                       error_description = d\<rparr>)\<rparr>)
     = Inl body_unusable
   \<and> status body_unusable = None"
  by (simp add: pollDeviceToken_def poll_try_def poll_catch_def Response_json_def
      Response_text_def ok_def body_unusable_def)

text \<open>
  C4 (as amended). With a refresh token present and a non-success response, the
  refresh always ends in an error and leaves \<^verbatim>\<open>this.credentials\<close> alone. On
  HTTP 400 the credential file is unlinked before the error is thrown, and is absent
  afterwards unless the unlink itself fails for a reason other than the file being
  absent, a failure that \<^verbatim>\<open>clearDeltaCredentials\<close> swallows. On every other
  non-success status nothing touches the file.
\<close>

theorem refreshAccessToken_non_success:
  assumes "truthy (refresh_token c)" and "\<not> ok response"
  shows "\<exists>e. refreshAccessToken now fault (Inr response) c f =
           (Inl e, c,
            (if http_status response = 400 \<and> fault = None then None else f),
            (if http_status response = 400
             then [Fetch QWEN_OAUTH_TOKEN_ENDPOINT, Unlink]
             else [Fetch QWEN_OAUTH_TOKEN_ENDPOINT]))"
  using assms
  by (cases "body response"; cases fault; cases f)
     (simp_all add: refreshAccessToken_def Response_text_def clearDeltaCredentials_def
        fs_unlink_def)

theorem refreshAccessToken_non_success_witness:
  "truthy (refresh_token sample_credentials) \<and> \<not> ok (sample_refresh_response 400)
   \<and> (\<exists>e. refreshAccessToken 0 None (Inr (sample_refresh_response 400)) sample_credentials
              (Some sample_credentials)
            = (Inl e, sample_credentials, None, [Fetch QWEN_OAUTH_TOKEN_ENDPOINT, Unlink]))
   \<and> (\<exists>e. refreshAccessToken 0 None (Inr (sample_refresh_response 500)) sample_credentials
              (Some sample_credentials)
            = (Inl e, sample_credentials, Some sample_credentials,
               [Fetch QWEN_OAUTH_TOKEN_ENDPOINT]))"
proof -
  have c: "truthy (refresh_token sample_credentials)"
    by (simp add: truthy_def sample_credentials_def)
  have r4: "\<not> ok (sample_refresh_response 400)"
    by (simp add: ok_def sample_refresh_response_def)
  have r5: "\<not> ok (sample_refresh_response 500)"
    by (simp add: ok_def sample_refresh_response_def)
  show ?thesis
    using c r4
      refreshAccessToken_non_success [OF c r4, of 0 None "Some sample_credentials"]
      refreshAccessToken_non_success [OF c r5, of 0 None "Some sample_credentials"]
    by (simp add: sample_refresh_response_def)
qed

text \<open>The claim as stated fails when the unlink is refused: the endpoint answers
  400, the error is thrown, and the file is still there.\<close>

theorem refreshAccessToken_400_file_kept_counterexample:
  "fst (snd (snd (refreshAccessToken 0 (Some EACCES) (Inr (sample_refresh_response 400))
       sample_credentials (Some sample_credentials)))) = Some sample_credentials
   \<and> http_status (sample_refresh_response 400) = 400"
  by (simp add: refreshAccessToken_def Response_text_def clearDeltaCredentials_def
      fs_unlink_def sample_refresh_response_def sample_credentials_def truthy_def ok_def)

section \<open>getAccessToken\<close>



section \<open>The device flow: lemmas on the loop\<close>

lemma trace_add_simps [simp]:
  "isCancelled (trace_add as s) = isCancelled s"
  "pollInterval (trace_add as s) = pollInterval s"
  "credentials (trace_add as s) = credentials s"
  "disk (trace_add as s) = disk s"
  "trace (trace_add as s) = trace s @ as"
  by (simp_all add: trace_add_def)

lemma cancel_if_simps [simp]:
  "isCancelled (cancel_if b s) = (b \<or> isCancelled s)"
  "pollInterval (cancel_if b s) = pollInterval s"
  "credentials (cancel_if b s) = credentials s"
  "disk (cancel_if b s) = disk s"
  "trace (cancel_if b s) = trace s @ (if b then [Cancel] else [])"
  by (simp_all add: cancel_if_def)

lemma poll_catch_block_effects:
  assumes "poll_catch_block e err s = (r, s')"
  shows "\<exists>rest. trace s' = trace s @ rest \<and> poll_request \<notin> set rest
           \<and> (Cancel \<in> set rest \<longrightarrow> isCancelled s') \<and> (isCancelled s \<longrightarrow> isCancelled s')"
  using assms
  by (auto simp: poll_catch_block_def Let_def poll_request_def split: if_splits option.splits)

lemma poll_attempt_effects:
  assumes "poll_attempt e s = (r, s')"
  shows "\<exists>rest. trace s' = trace s @ poll_request # rest \<and> poll_request \<notin> set rest
           \<and> (Cancel \<in> set rest \<longrightarrow> isCancelled s') \<and> (isCancelled s \<longrightarrow> isCancelled s')"
proof (cases "poll_outcome e")
  case (Inl err)
  with assms have "poll_catch_block e err
      (cancel_if (cancel_in_poll e) (trace_add [poll_request] s)) = (r, s')"
    by (simp add: poll_attempt_def poll_request_def)
  from poll_catch_block_effects [OF this] show ?thesis
    by (auto simp: poll_request_def)
next
  case (Inr tokenResponse)
  show ?thesis
  proof (cases tokenResponse)
    case (TokenData tokenData)
    show ?thesis
    proof (cases "truthy (dt_access_token tokenData)")
      case False
      with assms Inr TokenData show ?thesis
        by (auto simp: poll_attempt_def poll_request_def)
    next
      case True
      show ?thesis
      proof (cases "write_fault e")
        case None
        with assms Inr TokenData True show ?thesis
          by (auto simp: poll_attempt_def poll_request_def cacheDeltaCredentials_def Let_def)
      next
        case (Some err)
        with assms Inr TokenData True have "poll_catch_block e err
           (cancel_if (cancel_in_write e)
             ((cancel_if (cancel_in_poll e) (trace_add [poll_request] s))
                \<lparr>credentials := credentials_of (date_now e) tokenData\<rparr>)) = (r, s')"
          by (simp add: poll_attempt_def poll_request_def cacheDeltaCredentials_def Let_def)
        from poll_catch_block_effects [OF this] show ?thesis
          by (auto simp: poll_request_def)
      qed
    qed
  next
    case (PendingData pendingData)
    with assms Inr show ?thesis
      by (auto simp: poll_attempt_def poll_request_def Let_def split: prod.splits if_splits)
  next
    case (ErrorResponse errorData)
    with assms Inr obtain err where "poll_catch_block e err
      (cancel_if (cancel_in_poll e) (trace_add [poll_request] s)) = (r, s')"
      by (simp add: poll_attempt_def poll_request_def)
    from poll_catch_block_effects [OF this] show ?thesis
      by (auto simp: poll_request_def)
  qed
qed

lemma polls_append [simp]: "polls (xs @ ys) = polls xs + polls ys"
  by (simp add: polls_def)

lemma polls_none: "poll_request \<notin> set xs \<Longrightarrow> polls xs = 0"
  by (induction xs) (auto simp: polls_def)




lemma poll_attempt_polls:
  assumes "poll_attempt e s = (r, s')"
  shows "polls (trace s') = Suc (polls (trace s))"
proof -
  from poll_attempt_effects [OF assms] obtain rest where
    "trace s' = trace s @ poll_request # rest" and "poll_request \<notin> set rest" by blast
  then show ?thesis by (simp add: polls_none) (auto simp: polls_def filter_empty_conv)
qed


lemma poll_loop_polls:
  assumes "poll_loop env m a s = (r, s')"
  shows "polls (trace s') \<le> polls (trace s) + nat (m - int a)
       \<and> (r = None \<longrightarrow> polls (trace s') = polls (trace s) + nat (m - int a))"
  using assms
proof (induction env m a s rule: poll_loop.induct)
  case (1 env m a s)
  show ?case
  proof (cases "int a < m")
    case False
    with "1.prems" show ?thesis by (simp add: poll_loop.simps)
  next
    case lt: True
    show ?thesis
    proof (cases "isCancelled s")
      case True
      with lt "1.prems" show ?thesis
        by (auto simp: poll_loop.simps polls_def poll_request_def)
    next
      case nc: False
      obtain r1 s1 where pa: "poll_attempt (env a) s = (r1, s1)"
        by (cases "poll_attempt (env a) s")
      note p1 = poll_attempt_polls [OF pa]
      show ?thesis
      proof (cases r1)
        case (Some res)
        with lt nc pa "1.prems"(1) p1 show ?thesis by (auto simp: poll_loop.simps)
      next
        case None
        with lt nc pa "1.prems"(1) have "poll_loop env m (a + 1) s1 = (r, s')"
          by (simp add: poll_loop.simps)
        from "1.IH" [OF lt nc pa [symmetric] None this] p1 lt show ?thesis
          by auto
      qed
    qed
  qed
qed

lemma wait_intervals_append [simp]:
  "wait_intervals (xs @ ys) = wait_intervals xs @ wait_intervals ys"
  by (induction xs rule: wait_intervals.induct) auto

lemma wait_ticks_uncancelled:
  "fst (wait_ticks i None False t) = False"
proof (induction i "None :: nat option" False t rule: wait_ticks.induct)
  case (1 interval elapsedTime)
  then show ?case
    by (subst wait_ticks.simps) (simp add: Let_def)
qed

lemma wait_times_append [simp]:
  "wait_times (xs @ ys) = wait_times xs @ wait_times ys"
  by (induction xs rule: wait_times.induct) auto

text \<open>An uncancelled tick loop runs for the least positive multiple of 100 ms that
  reaches the interval.\<close>

lemma wait_ticks_elapsed:
  "\<not> fst (wait_ticks i None False e)
   \<and> e + 100 \<le> snd (wait_ticks i None False e)
   \<and> (100 dvd e \<longrightarrow> 100 dvd snd (wait_ticks i None False e))
   \<and> i \<le> of_nat (snd (wait_ticks i None False e))
   \<and> (snd (wait_ticks i None False e) = e + 100
        \<or> of_nat (snd (wait_ticks i None False e)) < i + 100)"
proof (induction i "None :: nat option" False e rule: wait_ticks.induct)
  case (1 interval elapsedTime)
  show ?case
  proof (cases "interval \<le> of_nat (elapsedTime + 100)")
    case True
    then have "wait_ticks interval None False elapsedTime = (False, elapsedTime + 100)"
      by (subst wait_ticks.simps) (simp add: Let_def)
    with True show ?thesis by simp
  next
    case False
    then have eq: "wait_ticks interval None False elapsedTime
        = wait_ticks interval None False (elapsedTime + 100)"
      by (subst wait_ticks.simps) (simp add: Let_def)
    from False have lt: "of_nat (elapsedTime + 100) < interval" by simp
    note ih = "1.hyps" [OF refl _ _ False]
    have ih': "\<not> fst (wait_ticks interval None False (elapsedTime + 100))
       \<and> elapsedTime + 100 + 100 \<le> snd (wait_ticks interval None False (elapsedTime + 100))
       \<and> (100 dvd (elapsedTime + 100) \<longrightarrow>
            100 dvd snd (wait_ticks interval None False (elapsedTime + 100)))
       \<and> interval \<le> of_nat (snd (wait_ticks interval None False (elapsedTime + 100)))
       \<and> (snd (wait_ticks interval None False (elapsedTime + 100)) = elapsedTime + 100 + 100
            \<or> of_nat (snd (wait_ticks interval None False (elapsedTime + 100)))
                 < interval + 100)"
      using ih by simp
    let ?t = "snd (wait_ticks interval None False (elapsedTime + 100))"
    have "?t = elapsedTime + 100 + 100 \<Longrightarrow> (of_nat ?t :: rat) < interval + 100"
    proof -
      assume a: "?t = elapsedTime + 100 + 100"
      have "(of_nat ?t :: rat) = of_nat (elapsedTime + 100) + 100" by (simp add: a)
      with lt show ?thesis by linarith
    qed
    with ih' eq show ?thesis by auto
  qed
qed

lemma wait_ticks_2000: "wait_ticks 2000 None False 0 = (False, 2000)"
  by (simp add: wait_ticks.simps)

lemma wait_ticks_3000: "wait_ticks 3000 None False 0 = (False, 3000)"
  by (simp add: wait_ticks.simps)

lemma pending_step:
  assumes "quiet e" and "\<not> isCancelled s" and "poll_outcome e = Inr (PendingData p)"
  shows "poll_attempt e s =
           (None,
            s\<lparr>pollInterval := next_pollInterval (pollInterval s) p,
              trace := trace s @
                [poll_request, Emit ''polling'',
                 TickWait (next_pollInterval (pollInterval s) p)
                   (snd (wait_ticks (next_pollInterval (pollInterval s) p) None False 0))]\<rparr>)"
proof -
  let ?i = "next_pollInterval (pollInterval s) p"
  obtain b t where w: "wait_ticks ?i None False 0 = (b, t)" by (cases "wait_ticks ?i None False 0")
  with wait_ticks_uncancelled [of ?i 0] have b: "b = False" by simp
  from assms w b show ?thesis
    by (simp add: poll_attempt_def quiet_def Let_def poll_request_def trace_add_def cancel_if_def)
qed

lemma success_step:
  assumes "quiet e" and "poll_outcome e = Inr (TokenData tokenData)"
    and "truthy (dt_access_token tokenData)" and "write_fault e = None"
  shows "poll_attempt e s =
           (Some AuthSuccess,
            s\<lparr>credentials := credentials_of (date_now e) tokenData,
              disk := Some (credentials_of (date_now e) tokenData),
              trace := trace s @
                [poll_request, WriteFile (credentials_of (date_now e) tokenData),
                 Emit ''success'']\<rparr>)"
  using assms
  by (simp add: poll_attempt_def quiet_def Let_def poll_request_def trace_add_def cancel_if_def
      cacheDeltaCredentials_def)

lemma maxAttempts_of_2000:
  "maxAttempts_of 2000 d = (expires_in d + 1) div 2"
proof -
  have "\<lceil>(of_int (expires_in d) :: rat) / of_int 2\<rceil> = - (- expires_in d div 2)"
    by (rule ceiling_divide_eq_div)
  then show ?thesis by (simp add: maxAttempts_of_def)
qed

lemma loop_step:
  assumes "int a < m" and "\<not> isCancelled s" and "poll_attempt (env a) s = (None, s')"
  shows "poll_loop env m a s = poll_loop env m (Suc a) s'"
  using assms by (subst poll_loop.simps) simp

lemma loop_return:
  assumes "int a < m" and "\<not> isCancelled s" and "poll_attempt (env a) s = (Some r, s')"
  shows "poll_loop env m a s = (Some r, s')"
  using assms by (subst poll_loop.simps) simp

lemma backoff_scenario:
  assumes d: "device_auth env = Inr (DeviceAuthorization d)" and e: "5 \<le> expires_in d"
    and nc: "\<not> cancel_before_poll env"
    and q: "quiet (attempts env 0)" "quiet (attempts env 1)" "quiet (attempts env 2)"
    and w: "write_fault (attempts env 2) = None"
    and p0: "poll_outcome (attempts env 0) = Inr (PendingData p0)" "slowDown p0 \<noteq> Some True"
    and p1: "poll_outcome (attempts env 1) = Inr (PendingData p1)" "slowDown p1 = Some True"
    and p2: "poll_outcome (attempts env 2) = Inr (TokenData tokenData)"
            "truthy (dt_access_token tokenData)"
  shows "fst (authWithDeltaDeviceFlow env c f) = AuthSuccess
       \<and> wait_intervals (trace (snd (authWithDeltaDeviceFlow env c f))) = [2000, 3000]
       \<and> wait_times (trace (snd (authWithDeltaDeviceFlow env c f))) = [2000, 3000]
       \<and> access_token (credentials (snd (authWithDeltaDeviceFlow env c f)))
           = dt_access_token tokenData
       \<and> disk (snd (authWithDeltaDeviceFlow env c f))
           = Some (credentials (snd (authWithDeltaDeviceFlow env c f)))"
proof -
  let ?m = "maxAttempts_of 2000 d"
  from e have m: "int 0 < ?m" "int 1 < ?m" "int 2 < ?m"
    by (simp_all add: maxAttempts_of_2000)
  let ?s1 = "trace_add [Emit ''polling'']
     (cancel_if (cancel_before_poll env) (trace_add [EmitAuthUri]
        \<lparr>isCancelled = False, pollInterval = 2000, credentials = c, disk = f,
         trace = [Fetch QWEN_OAUTH_DEVICE_CODE_ENDPOINT]\<rparr>))"
  have s1: "\<not> isCancelled ?s1" "pollInterval ?s1 = 2000" using nc by simp_all
  obtain s2 where a0: "poll_attempt (attempts env 0) ?s1 = (None, s2)"
    and s2: "\<not> isCancelled s2" "pollInterval s2 = 2000"
      "wait_intervals (trace s2) = [2000]" "wait_times (trace s2) = [2000]"
    using pending_step [OF q(1) s1(1) p0(1)] p0(2) nc
    by (simp add: poll_request_def next_pollInterval_def wait_ticks_2000)
  obtain s3 where a1: "poll_attempt (attempts env (Suc 0)) s2 = (None, s3)"
    and s3: "\<not> isCancelled s3" "wait_intervals (trace s3) = [2000, 3000]"
      "wait_times (trace s3) = [2000, 3000]"
    using pending_step [OF q(2) s2(1) p1(1)] p1(2) s2
    by (simp add: poll_request_def next_pollInterval_def wait_ticks_3000)
  let ?cr = "credentials_of (date_now (attempts env 2)) tokenData"
  let ?s4 = "s3\<lparr>credentials := ?cr, disk := Some ?cr,
      trace := trace s3 @ [poll_request, WriteFile ?cr, Emit ''success'']\<rparr>"
  have a2: "poll_attempt (attempts env 2) s3 = (Some AuthSuccess, ?s4)"
    by (rule success_step [OF q(3) p2 w])
  have m': "int (Suc 0) < ?m" "int (Suc (Suc 0)) < ?m" using m by simp_all
  have "poll_loop (attempts env) ?m 0 ?s1 = poll_loop (attempts env) ?m (Suc 0) s2"
    using m(1) s1(1) a0 by (rule loop_step [where env = "attempts env" and a = 0])
  also have "\<dots> = poll_loop (attempts env) ?m (Suc (Suc 0)) s3"
    using m'(1) s2(1) a1 by (rule loop_step [where env = "attempts env" and a = "Suc 0"])
  also have "\<dots> = (Some AuthSuccess, ?s4)"
  proof -
    have "poll_attempt (attempts env (Suc (Suc 0))) s3 = (Some AuthSuccess, ?s4)"
      using a2 by (simp add: numeral_2_eq_2)
    with m'(2) s3(1) show ?thesis
      by (rule loop_return [where env = "attempts env" and a = "Suc (Suc 0)"])
  qed
  finally have "authWithDeltaDeviceFlow env c f = (AuthSuccess, ?s4)"
    using d by (simp add: authWithDeltaDeviceFlow_def Let_def)
  with s3 show ?thesis
    by (simp add: poll_request_def credentials_of_def)
qed

lemma poll_catch_block_retried:
  assumes "retried err" and "\<not> isCancelled s" and "cancel_in_wait e = None"
  shows "\<exists>s'. poll_catch_block e err s = (None, s') \<and> \<not> isCancelled s'"
  using assms by (simp add: poll_catch_block_def retried_def Let_def)

lemma goes_on_step:
  assumes "goes_on e" and "\<not> isCancelled s"
  shows "\<exists>s'. poll_attempt e s = (None, s') \<and> \<not> isCancelled s'"
proof (cases "poll_outcome e")
  case (Inl err)
  with assms have r: "retried err" and q: "quiet e" by (simp_all add: goes_on_def)
  from q assms(2) have "\<not> isCancelled (cancel_if (cancel_in_poll e) (trace_add [poll_request] s))"
    and "cancel_in_wait e = None" by (simp_all add: quiet_def)
  from poll_catch_block_retried [OF r this] Inl show ?thesis
    by (simp add: poll_attempt_def poll_request_def)
next
  case (Inr tokenResponse)
  from assms have q: "quiet e" by (simp add: goes_on_def)
  show ?thesis
  proof (cases tokenResponse)
    case (TokenData d)
    with assms Inr q show ?thesis
      by (simp add: goes_on_def poll_attempt_def quiet_def)
  next
    case (PendingData p)
    with Inr pending_step [OF q assms(2)] assms(2) show ?thesis by simp
  next
    case (ErrorResponse errorData)
    with assms Inr have r: "retried (token_polling_failed errorData)" by (simp add: goes_on_def)
    from q assms(2) have "\<not> isCancelled (cancel_if (cancel_in_poll e) (trace_add [poll_request] s))"
      and "cancel_in_wait e = None" by (simp_all add: quiet_def)
    from poll_catch_block_retried [OF r this] Inr ErrorResponse show ?thesis
      by (simp add: poll_attempt_def poll_request_def)
  qed
qed

lemma goes_on_loop:
  assumes "\<forall>i. a \<le> i \<and> int i < m \<longrightarrow> goes_on (env i)" and "\<not> isCancelled s"
  shows "fst (poll_loop env m a s) = None"
  using assms
proof (induction env m a s rule: poll_loop.induct)
  case (1 env m a s)
  show ?case
  proof (cases "int a < m")
    case False
    then show ?thesis by (simp add: poll_loop.simps)
  next
    case lt: True
    with "1.prems" have "goes_on (env a)" by simp
    from goes_on_step [OF this "1.prems"(2)] obtain s1 where
      pa: "poll_attempt (env a) s = (None, s1)" and nc: "\<not> isCancelled s1" by blast
    have "fst (poll_loop env m (a + 1) s1) = None"
      using "1.IH" [OF lt "1.prems"(2) pa [symmetric] refl _ nc] "1.prems"(1) by simp
    with lt "1.prems"(2) pa show ?thesis by (simp add: poll_loop.simps)
  qed
qed

lemma poll_catch_block_result:
  assumes "poll_catch_block e err s = (Some r, s')"
  shows "r = AuthFailure reason_error \<or> r = AuthFailure reason_rate_limit
       \<or> r = AuthFailure reason_cancelled"
  using assms by (auto simp: poll_catch_block_def Let_def split: if_splits)

lemma poll_attempt_success:
  assumes "poll_attempt e s = (Some AuthSuccess, s')"
  shows "\<exists>tokenData. poll_outcome e = Inr (TokenData tokenData)
           \<and> truthy (dt_access_token tokenData) \<and> write_fault e = None
           \<and> credentials s' = credentials_of (date_now e) tokenData
           \<and> disk s' = Some (credentials s')"
proof (cases "poll_outcome e")
  case (Inl err)
  with assms poll_catch_block_result [of e err _ AuthSuccess s'] show ?thesis
    by (simp add: poll_attempt_def)
next
  case (Inr tokenResponse)
  show ?thesis
  proof (cases tokenResponse)
    case (TokenData d)
    show ?thesis
    proof (cases "write_fault e")
      case None
      with assms Inr TokenData show ?thesis
        by (auto simp: poll_attempt_def cacheDeltaCredentials_def Let_def split: if_splits)
    next
      case (Some err)
      with assms Inr TokenData
        poll_catch_block_result [of e err _ AuthSuccess s'] show ?thesis
        by (auto simp: poll_attempt_def cacheDeltaCredentials_def Let_def split: if_splits)
    qed
  next
    case (PendingData p)
    with assms Inr show ?thesis
      by (auto simp: poll_attempt_def Let_def split: prod.splits if_splits)
  next
    case (ErrorResponse errorData)
    with assms Inr poll_catch_block_result [of e _ _ AuthSuccess s'] show ?thesis
      by (simp add: poll_attempt_def)
  qed
qed

lemma poll_attempt_not_timeout:
  assumes "poll_attempt e s = (Some r, s')"
  shows "r \<noteq> AuthFailure reason_timeout"
proof (cases "poll_outcome e")
  case (Inl err)
  with assms poll_catch_block_result [of e err _ r s'] show ?thesis
    by (auto simp: poll_attempt_def)
next
  case (Inr tokenResponse)
  show ?thesis
  proof (cases tokenResponse)
    case (TokenData d)
    show ?thesis
    proof (cases "write_fault e")
      case None
      with assms Inr TokenData show ?thesis
        by (auto simp: poll_attempt_def cacheDeltaCredentials_def Let_def split: if_splits)
    next
      case (Some err)
      with assms Inr TokenData
        poll_catch_block_result [of e err _ r s'] show ?thesis
        by (auto simp: poll_attempt_def cacheDeltaCredentials_def Let_def split: if_splits)
    qed
  next
    case (PendingData p)
    with assms Inr show ?thesis
      by (auto simp: poll_attempt_def Let_def split: prod.splits if_splits)
  next
    case (ErrorResponse errorData)
    with assms Inr poll_catch_block_result [of e _ _ r s'] show ?thesis
      by (auto simp: poll_attempt_def)
  qed
qed

lemma poll_loop_result:
  assumes "poll_loop env m a s = (Some r, s')"
  shows "r \<noteq> AuthFailure reason_timeout
       \<and> (r = AuthSuccess \<longrightarrow>
            (\<exists>i tokenData. poll_outcome (env i) = Inr (TokenData tokenData)
               \<and> truthy (dt_access_token tokenData)
               \<and> credentials s' = credentials_of (date_now (env i)) tokenData
               \<and> disk s' = Some (credentials s')))"
  using assms
proof (induction env m a s rule: poll_loop.induct)
  case (1 env m a s)
  show ?case
  proof (cases "int a < m")
    case False
    with "1.prems" show ?thesis by (simp add: poll_loop.simps)
  next
    case lt: True
    show ?thesis
    proof (cases "isCancelled s")
      case True
      with lt "1.prems" show ?thesis by (auto simp: poll_loop.simps)
    next
      case nc: False
      obtain r1 s1 where pa: "poll_attempt (env a) s = (r1, s1)"
        by (cases "poll_attempt (env a) s")
      show ?thesis
      proof (cases r1)
        case (Some res)
        with lt nc pa "1.prems" have eq: "res = r" "s1 = s'" by (simp_all add: poll_loop.simps)
        with pa Some have pa': "poll_attempt (env a) s = (Some r, s')" by simp
        from poll_attempt_not_timeout [OF pa'] poll_attempt_success [of "env a" s s'] pa'
        show ?thesis by blast
      next
        case None
        with lt nc pa "1.prems" have "poll_loop env m (a + 1) s1 = (Some r, s')"
          by (simp add: poll_loop.simps)
        from "1.IH" [OF lt nc pa [symmetric] None this] show ?thesis .
      qed
    qed
  qed
qed




lemma endpoints_differ: "Fetch QWEN_OAUTH_DEVICE_CODE_ENDPOINT \<noteq> poll_request"
  by (simp add: poll_request_def QWEN_OAUTH_DEVICE_CODE_ENDPOINT_def QWEN_OAUTH_TOKEN_ENDPOINT_def)

lemma flow_cases:
  obtains (failed) "authWithDeltaDeviceFlow env c f =
        (AuthFailure reason_error,
         \<lparr>isCancelled = False, pollInterval = 2000, credentials = c, disk = f,
          trace = [Fetch QWEN_OAUTH_DEVICE_CODE_ENDPOINT]\<rparr>)"
    and "\<forall>d. device_auth env \<noteq> Inr (DeviceAuthorization d)"
  | (polled) d s1 r s' where "device_auth env = Inr (DeviceAuthorization d)"
    and "s1 = trace_add [Emit ''polling'']
           (cancel_if (cancel_before_poll env) (trace_add [EmitAuthUri]
              \<lparr>isCancelled = False, pollInterval = 2000, credentials = c, disk = f,
               trace = [Fetch QWEN_OAUTH_DEVICE_CODE_ENDPOINT]\<rparr>))"
    and "poll_loop (attempts env) (maxAttempts_of 2000 d) 0 s1 = (r, s')"
    and "authWithDeltaDeviceFlow env c f =
           (case r of Some res \<Rightarrow> (res, s')
            | None \<Rightarrow> (AuthFailure reason_timeout, trace_add [Emit ''timeout''] s'))"
proof (cases "device_auth env")
  case (Inl err)
  then show ?thesis by (intro failed) (simp_all add: authWithDeltaDeviceFlow_def)
next
  case (Inr resp)
  show ?thesis
  proof (cases resp)
    case (DeviceAuthorizationError errorData)
    with Inr show ?thesis by (intro failed) (simp_all add: authWithDeltaDeviceFlow_def)
  next
    case (DeviceAuthorization d)
    let ?s1 = "trace_add [Emit ''polling'']
           (cancel_if (cancel_before_poll env) (trace_add [EmitAuthUri]
              \<lparr>isCancelled = False, pollInterval = 2000, credentials = c, disk = f,
               trace = [Fetch QWEN_OAUTH_DEVICE_CODE_ENDPOINT]\<rparr>))"
    obtain r s' where l: "poll_loop (attempts env) (maxAttempts_of 2000 d) 0 ?s1 = (r, s')"
      by (cases "poll_loop (attempts env) (maxAttempts_of 2000 d) 0 ?s1")
    show ?thesis
    proof (rule polled [OF _ refl l])
      show "device_auth env = Inr (DeviceAuthorization d)" using Inr DeviceAuthorization by simp
      show "authWithDeltaDeviceFlow env c f =
           (case r of Some res \<Rightarrow> (res, s')
            | None \<Rightarrow> (AuthFailure reason_timeout, trace_add [Emit ''timeout''] s'))"
        using Inr DeviceAuthorization l
        by (simp add: authWithDeltaDeviceFlow_def Let_def split: option.splits)
    qed
  qed
qed


lemma flow_start_polls:
  "polls (trace (trace_add [Emit ''polling'']
           (cancel_if b (trace_add [EmitAuthUri]
              \<lparr>isCancelled = False, pollInterval = 2000, credentials = c, disk = f,
               trace = [Fetch QWEN_OAUTH_DEVICE_CODE_ENDPOINT]\<rparr>)))) = 0"
  using endpoints_differ by (auto simp: polls_def poll_request_def)


lemma sample_quiet [simp]: "quiet (sample_attempt outcome)"
  by (simp add: quiet_def sample_attempt_def)

section \<open>The device flow: polling, backoff, cancellation, success\<close>

text \<open>
  C6. After a pending response, and unless the user has cancelled, the loop goes on
  with the next attempt; the interval of the wait is the old one times 1.5, capped
  at 10000 ms, when the response asks to slow down, and 2000 ms when it does not.
  The iteration (\<^verbatim>\<open>poll_attempt\<close>, one pass of the loop body) does exactly three
  things: the poll request, the progress event and the wait; and the wait lasts for the least positive multiple of the 100 ms tick
  that reaches the new interval, so at least the interval and less than a tick more.
  For the responses pending, pending with \<^verbatim>\<open>slowDown\<close>, success (at least three
  attempts allowed, no cancellation, credential file written) the flow waits twice,
  for 2000 ms and then for 3000 ms, the second interval is greater than the first and
  at most 10000 ms, and the flow ends in success with the access token of the last
  response.
\<close>

theorem device_flow_backoff:
  "(\<forall>attempts_env m a s p.
      int a < m \<and> \<not> isCancelled s \<and> quiet (attempts_env a)
      \<and> poll_outcome (attempts_env a) = Inr (PendingData p) \<longrightarrow>
      (\<exists>s' t. poll_attempt (attempts_env a) s = (None, s')
           \<and> poll_loop attempts_env m a s = poll_loop attempts_env m (Suc a) s'
           \<and> \<not> isCancelled s'
           \<and> pollInterval s' = (if slowDown p = Some True
                                 then min (pollInterval s * 1.5) 10000 else 2000)
           \<and> wait_intervals (trace s') = wait_intervals (trace s) @ [pollInterval s']
           \<and> trace s' = trace s @ [poll_request, Emit ''polling'',
                                    TickWait (pollInterval s') t]
           \<and> wait_times (trace s') = wait_times (trace s) @ [of_nat t]
           \<and> 100 dvd t \<and> 100 \<le> t
           \<and> pollInterval s' \<le> of_nat t
           \<and> (t = 100 \<or> of_nat t < pollInterval s' + 100)))
   \<and> (\<forall>env d c f p0 p1 tokenData.
        device_auth env = Inr (DeviceAuthorization d) \<and> 5 \<le> expires_in d
        \<and> \<not> cancel_before_poll env
        \<and> quiet (attempts env 0) \<and> quiet (attempts env 1) \<and> quiet (attempts env 2)
        \<and> write_fault (attempts env 2) = None
        \<and> poll_outcome (attempts env 0) = Inr (PendingData p0) \<and> slowDown p0 \<noteq> Some True
        \<and> poll_outcome (attempts env 1) = Inr (PendingData p1) \<and> slowDown p1 = Some True
        \<and> poll_outcome (attempts env 2) = Inr (TokenData tokenData)
        \<and> truthy (dt_access_token tokenData) \<longrightarrow>
        fst (authWithDeltaDeviceFlow env c f) = AuthSuccess
        \<and> (\<exists>w1 w2. wait_intervals (trace (snd (authWithDeltaDeviceFlow env c f))) = [w1, w2]
               \<and> w1 < w2 \<and> w2 \<le> 10000)
        \<and> wait_times (trace (snd (authWithDeltaDeviceFlow env c f))) = [2000, 3000]
        \<and> access_token (credentials (snd (authWithDeltaDeviceFlow env c f)))
            = dt_access_token tokenData)"
proof (rule conjI; intro allI impI)
  fix attempts_env :: "nat \<Rightarrow> attempt_env" and m :: int and a :: nat
    and s :: flow_state and p :: DeviceTokenPendingData
  assume h: "int a < m \<and> \<not> isCancelled s \<and> quiet (attempts_env a)
      \<and> poll_outcome (attempts_env a) = Inr (PendingData p)"
  let ?i = "next_pollInterval (pollInterval s) p"
  let ?t = "snd (wait_ticks ?i None False 0)"
  let ?s' = "s\<lparr>pollInterval := ?i,
      trace := trace s @ [poll_request, Emit ''polling'', TickWait ?i ?t]\<rparr>"
  from h have pa: "poll_attempt (attempts_env a) s = (None, ?s')"
    using pending_step [of "attempts_env a" s p] by simp
  from h pa have "poll_loop attempts_env m a s = poll_loop attempts_env m (Suc a) ?s'"
    by (intro loop_step) simp_all
  moreover note pa
  moreover from h have "\<not> isCancelled ?s'" by simp
  moreover have "pollInterval ?s' = (if slowDown p = Some True
                                 then min (pollInterval s * 1.5) 10000 else 2000)"
    by (simp add: next_pollInterval_def)
  moreover have "wait_intervals (trace ?s') = wait_intervals (trace s) @ [pollInterval ?s']"
    by (simp add: poll_request_def)
  moreover have "trace ?s' = trace s @ [poll_request, Emit ''polling'',
                                    TickWait (pollInterval ?s') ?t]"
    by simp
  moreover have "wait_times (trace ?s') = wait_times (trace s) @ [of_nat ?t]"
    by (simp add: poll_request_def)
  moreover have "100 dvd ?t" "100 \<le> ?t" "pollInterval ?s' \<le> of_nat ?t"
    "?t = 100 \<or> of_nat ?t < pollInterval ?s' + 100"
    using wait_ticks_elapsed [of ?i 0] by simp_all
  ultimately show "\<exists>s' t. poll_attempt (attempts_env a) s = (None, s')
           \<and> poll_loop attempts_env m a s = poll_loop attempts_env m (Suc a) s'
           \<and> \<not> isCancelled s'
           \<and> pollInterval s' = (if slowDown p = Some True
                                 then min (pollInterval s * 1.5) 10000 else 2000)
           \<and> wait_intervals (trace s') = wait_intervals (trace s) @ [pollInterval s']
           \<and> trace s' = trace s @ [poll_request, Emit ''polling'',
                                    TickWait (pollInterval s') t]
           \<and> wait_times (trace s') = wait_times (trace s) @ [of_nat t]
           \<and> 100 dvd t \<and> 100 \<le> t
           \<and> pollInterval s' \<le> of_nat t
           \<and> (t = 100 \<or> of_nat t < pollInterval s' + 100)"
    by blast
next
  fix env :: flow_env and d :: DeviceAuthorizationData and c :: DeltaCredentials
    and f :: cred_file and p0 p1 :: DeviceTokenPendingData and tokenData :: DeviceTokenData
  assume h: "device_auth env = Inr (DeviceAuthorization d) \<and> 5 \<le> expires_in d
        \<and> \<not> cancel_before_poll env
        \<and> quiet (attempts env 0) \<and> quiet (attempts env 1) \<and> quiet (attempts env 2)
        \<and> write_fault (attempts env 2) = None
        \<and> poll_outcome (attempts env 0) = Inr (PendingData p0) \<and> slowDown p0 \<noteq> Some True
        \<and> poll_outcome (attempts env 1) = Inr (PendingData p1) \<and> slowDown p1 = Some True
        \<and> poll_outcome (attempts env 2) = Inr (TokenData tokenData)
        \<and> truthy (dt_access_token tokenData)"
  then have "device_auth env = Inr (DeviceAuthorization d)" "5 \<le> expires_in d"
    "\<not> cancel_before_poll env"
    "quiet (attempts env 0)" "quiet (attempts env 1)" "quiet (attempts env 2)"
    "write_fault (attempts env 2) = None"
    "poll_outcome (attempts env 0) = Inr (PendingData p0)" "slowDown p0 \<noteq> Some True"
    "poll_outcome (attempts env 1) = Inr (PendingData p1)" "slowDown p1 = Some True"
    "poll_outcome (attempts env 2) = Inr (TokenData tokenData)"
    "truthy (dt_access_token tokenData)"
    by blast+
  then have "fst (authWithDeltaDeviceFlow env c f) = AuthSuccess
       \<and> wait_intervals (trace (snd (authWithDeltaDeviceFlow env c f))) = [2000, 3000]
       \<and> wait_times (trace (snd (authWithDeltaDeviceFlow env c f))) = [2000, 3000]
       \<and> access_token (credentials (snd (authWithDeltaDeviceFlow env c f)))
           = dt_access_token tokenData
       \<and> disk (snd (authWithDeltaDeviceFlow env c f))
           = Some (credentials (snd (authWithDeltaDeviceFlow env c f)))"
    by (rule backoff_scenario)
  then show "fst (authWithDeltaDeviceFlow env c f) = AuthSuccess
        \<and> (\<exists>w1 w2. wait_intervals (trace (snd (authWithDeltaDeviceFlow env c f))) = [w1, w2]
               \<and> w1 < w2 \<and> w2 \<le> 10000)
        \<and> wait_times (trace (snd (authWithDeltaDeviceFlow env c f))) = [2000, 3000]
        \<and> access_token (credentials (snd (authWithDeltaDeviceFlow env c f)))
            = dt_access_token tokenData"
    by simp
qed

theorem device_flow_backoff_witness:
  "fst (authWithDeltaDeviceFlow (sample_flow backoff_attempts) no_credentials None) = AuthSuccess
   \<and> (\<exists>w1 w2. wait_intervals (trace (snd
          (authWithDeltaDeviceFlow (sample_flow backoff_attempts) no_credentials None))) = [w1, w2]
        \<and> w1 < w2 \<and> w2 \<le> 10000)
   \<and> wait_times (trace (snd
        (authWithDeltaDeviceFlow (sample_flow backoff_attempts) no_credentials None)))
       = [2000, 3000]
   \<and> access_token (credentials (snd
        (authWithDeltaDeviceFlow (sample_flow backoff_attempts) no_credentials None))) = Some ''a2''
   \<and> (\<exists>s'. poll_loop backoff_attempts 5 1
              \<lparr>isCancelled = False, pollInterval = 2000, credentials = no_credentials,
               disk = None, trace = []\<rparr>
            = poll_loop backoff_attempts 5 (Suc 1) s'
          \<and> pollInterval s' = 3000
          \<and> trace s' = [poll_request, Emit ''polling'', TickWait 3000 3000]
          \<and> wait_times (trace s') = [3000])"
proof -
  let ?s = "\<lparr>isCancelled = False, pollInterval = 2000, credentials = no_credentials,
               disk = None, trace = []\<rparr>"
  have a: "fst (authWithDeltaDeviceFlow (sample_flow backoff_attempts) no_credentials None)
       = AuthSuccess
     \<and> (\<exists>w1 w2. wait_intervals (trace (snd
          (authWithDeltaDeviceFlow (sample_flow backoff_attempts) no_credentials None))) = [w1, w2]
        \<and> w1 < w2 \<and> w2 \<le> 10000)
     \<and> wait_times (trace (snd
          (authWithDeltaDeviceFlow (sample_flow backoff_attempts) no_credentials None)))
         = [2000, 3000]
     \<and> access_token (credentials (snd
        (authWithDeltaDeviceFlow (sample_flow backoff_attempts) no_credentials None)))
       = dt_access_token sample_token"
    by (rule device_flow_backoff [THEN conjunct2, rule_format,
          where d = sample_device_auth and ?p0.0 = "\<lparr>slowDown = None\<rparr>"
            and ?p1.0 = "\<lparr>slowDown = Some True\<rparr>"])
       (simp add: sample_flow_def backoff_attempts_def sample_device_auth_def
          sample_attempt_def sample_token_def truthy_def quiet_def)
  have b: "\<exists>s' t. poll_attempt (backoff_attempts 1) ?s = (None, s')
          \<and> poll_loop backoff_attempts 5 1 ?s
            = poll_loop backoff_attempts 5 (Suc 1) s'
          \<and> \<not> isCancelled s'
          \<and> pollInterval s' = (if slowDown \<lparr>slowDown = Some True\<rparr> = Some True
               then min (pollInterval ?s * 1.5) 10000 else 2000)
          \<and> wait_intervals (trace s') = wait_intervals (trace ?s) @ [pollInterval s']
          \<and> trace s' = trace ?s @ [poll_request, Emit ''polling'',
                                    TickWait (pollInterval s') t]
          \<and> wait_times (trace s') = wait_times (trace ?s) @ [of_nat t]
          \<and> 100 dvd t \<and> 100 \<le> t
          \<and> pollInterval s' \<le> of_nat t
          \<and> (t = 100 \<or> of_nat t < pollInterval s' + 100)"
    by (rule device_flow_backoff [THEN conjunct1, rule_format])
       (simp add: backoff_attempts_def sample_attempt_def quiet_def)
  then obtain s' t where l: "poll_loop backoff_attempts 5 1 ?s
            = poll_loop backoff_attempts 5 (Suc 1) s'"
    and i: "pollInterval s' = 3000"
    and tr: "trace s' = [poll_request, Emit ''polling'', TickWait (pollInterval s') t]"
    and wt: "wait_times (trace s') = [of_nat t]"
    and dv: "100 dvd t"
    and lo: "pollInterval s' \<le> of_nat t"
    and hi: "t = 100 \<or> of_nat t < pollInterval s' + 100"
    by auto
  from lo hi i have "3000 \<le> t" "t < 3100" by auto
  with dv have "t = 3000" by (auto elim!: dvdE)
  with l i tr wt have "poll_loop backoff_attempts 5 1 ?s
            = poll_loop backoff_attempts 5 (Suc 1) s'
          \<and> pollInterval s' = 3000
          \<and> trace s' = [poll_request, Emit ''polling'', TickWait 3000 3000]
          \<and> wait_times (trace s') = [3000]"
    by simp
  then have c: "\<exists>s'. poll_loop backoff_attempts 5 1 ?s
            = poll_loop backoff_attempts 5 (Suc 1) s'
          \<and> pollInterval s' = 3000
          \<and> trace s' = [poll_request, Emit ''polling'', TickWait 3000 3000]
          \<and> wait_times (trace s') = [3000]" ..
  from a have a': "fst (authWithDeltaDeviceFlow (sample_flow backoff_attempts) no_credentials None)
       = AuthSuccess
     \<and> (\<exists>w1 w2. wait_intervals (trace (snd
          (authWithDeltaDeviceFlow (sample_flow backoff_attempts) no_credentials None))) = [w1, w2]
        \<and> w1 < w2 \<and> w2 \<le> 10000)
     \<and> wait_times (trace (snd
          (authWithDeltaDeviceFlow (sample_flow backoff_attempts) no_credentials None)))
         = [2000, 3000]
     \<and> access_token (credentials (snd
        (authWithDeltaDeviceFlow (sample_flow backoff_attempts) no_credentials None)))
       = Some ''a2''"
    by (simp add: sample_token_def)
  from a' c show ?thesis by blast
qed

text \<open>
  C7. With \<^verbatim>\<open>maxAttempts\<close> the ceiling of \<^verbatim>\<open>expires_in\<close> over the initial
  interval in seconds (2000 ms / 1000), the flow issues at most \<^verbatim>\<open>maxAttempts\<close>
  poll requests; it ends in timeout only after exactly that many; and it does end in
  timeout when no attempt brings a success response, a cancellation or an error
  classified as 401 or 429.
\<close>

theorem device_flow_attempts:
  assumes "device_auth env = Inr (DeviceAuthorization d)"
  shows "polls (trace (snd (authWithDeltaDeviceFlow env c f)))
           \<le> nat \<lceil>(of_int (expires_in d) :: rat) / (2000 / 1000)\<rceil>
       \<and> (fst (authWithDeltaDeviceFlow env c f) = AuthFailure reason_timeout \<longrightarrow>
            polls (trace (snd (authWithDeltaDeviceFlow env c f)))
              = nat \<lceil>(of_int (expires_in d) :: rat) / (2000 / 1000)\<rceil>)
       \<and> (\<not> cancel_before_poll env
            \<and> (\<forall>i. int i < \<lceil>(of_int (expires_in d) :: rat) / (2000 / 1000)\<rceil>
                   \<longrightarrow> goes_on (attempts env i)) \<longrightarrow>
            fst (authWithDeltaDeviceFlow env c f) = AuthFailure reason_timeout)"
proof (rule flow_cases [where env = env and c = c and f = f], goal_cases)
  case 1
  with assms show ?case by simp
next
  case (2 d' s1 r s')
  with assms have d: "d' = d" by simp
  have m: "maxAttempts_of 2000 d = \<lceil>(of_int (expires_in d) :: rat) / (2000 / 1000)\<rceil>"
    by (simp add: maxAttempts_of_def)
  have p0: "polls (trace s1) = 0" unfolding 2(2) by (rule flow_start_polls)
  from poll_loop_polls [OF 2(3)] p0 d
  have le: "polls (trace s') \<le> nat (maxAttempts_of 2000 d)"
    and eq: "r = None \<longrightarrow> polls (trace s') = nat (maxAttempts_of 2000 d)"
    by simp_all
  have fin: "polls (trace (snd (authWithDeltaDeviceFlow env c f))) = polls (trace s')"
    using 2(4) by (cases r) (simp_all add: polls_def poll_request_def)
  have a: "polls (trace (snd (authWithDeltaDeviceFlow env c f)))
           \<le> nat \<lceil>(of_int (expires_in d) :: rat) / (2000 / 1000)\<rceil>"
    using le fin m by simp
  have b: "fst (authWithDeltaDeviceFlow env c f) = AuthFailure reason_timeout \<longrightarrow>
            polls (trace (snd (authWithDeltaDeviceFlow env c f)))
              = nat \<lceil>(of_int (expires_in d) :: rat) / (2000 / 1000)\<rceil>"
  proof (cases r)
    case None
    with eq fin m show ?thesis by simp
  next
    case (Some res)
    with 2(3) have "poll_loop (attempts env) (maxAttempts_of 2000 d') 0 s1 = (Some res, s')"
      by simp
    from poll_loop_result [OF this] have "res \<noteq> AuthFailure reason_timeout" by simp
    with 2(4) Some show ?thesis by simp
  qed
  have c: "\<not> cancel_before_poll env
            \<and> (\<forall>i. int i < \<lceil>(of_int (expires_in d) :: rat) / (2000 / 1000)\<rceil>
                   \<longrightarrow> goes_on (attempts env i)) \<longrightarrow>
            fst (authWithDeltaDeviceFlow env c f) = AuthFailure reason_timeout"
  proof
    assume h: "\<not> cancel_before_poll env
            \<and> (\<forall>i. int i < \<lceil>(of_int (expires_in d) :: rat) / (2000 / 1000)\<rceil>
                   \<longrightarrow> goes_on (attempts env i))"
    with 2(2) have nc: "\<not> isCancelled s1" by simp
    from h m d have "\<forall>i. 0 \<le> i \<and> int i < maxAttempts_of 2000 d' \<longrightarrow> goes_on (attempts env i)"
      by simp
    from goes_on_loop [OF this nc] 2(3) have "r = None" by simp
    with 2(4) show "fst (authWithDeltaDeviceFlow env c f) = AuthFailure reason_timeout"
      by simp
  qed
  from a b c show ?case by blast
qed

theorem device_flow_attempts_witness:
  "device_auth (sample_flow pending_attempts) = Inr (DeviceAuthorization sample_device_auth)
   \<and> fst (authWithDeltaDeviceFlow (sample_flow pending_attempts) no_credentials None)
       = AuthFailure reason_timeout
   \<and> polls (trace (snd (authWithDeltaDeviceFlow (sample_flow pending_attempts)
        no_credentials None))) = 5"
proof -
  have d: "device_auth (sample_flow pending_attempts)
      = Inr (DeviceAuthorization sample_device_auth)"
    by (simp add: sample_flow_def)
  have g: "goes_on (attempts (sample_flow pending_attempts) i)" for i
    by (simp add: goes_on_def sample_flow_def pending_attempts_def sample_attempt_def quiet_def)
  have n: "\<not> cancel_before_poll (sample_flow pending_attempts)"
    by (simp add: sample_flow_def)
  have m: "nat \<lceil>(of_int (expires_in sample_device_auth) :: rat) / (2000 / 1000)\<rceil> = 5"
    by (simp add: sample_device_auth_def)
  from device_flow_attempts [OF d, of no_credentials None] g n m d show ?thesis
    by simp
qed




text \<open>
  C9 (as amended). When the flow ends in success, the client's record was built from
  a token response of one of the attempts: its access token is that of the response
  and its expiry date is the clock plus \<^verbatim>\<open>expires_in\<close> times 1000 when
  \<^verbatim>\<open>expires_in\<close> is present and not zero, and absent when \<^verbatim>\<open>expires_in\<close> is
  absent or zero; the credential file holds that record.
\<close>

theorem device_flow_success_record:
  assumes "authWithDeltaDeviceFlow env c f = (AuthSuccess, s)"
  shows "\<exists>i tokenData.
           poll_outcome (attempts env i) = Inr (TokenData tokenData)
           \<and> access_token (credentials s) = dt_access_token tokenData
           \<and> expiry_date (credentials s) =
               (case dt_expires_in tokenData of
                  None \<Rightarrow> None
                | Some n \<Rightarrow> if n = 0 then None
                            else Some (date_now (attempts env i) + n * 1000))
           \<and> disk s = Some (credentials s)"
proof (rule flow_cases [where env = env and c = c and f = f], goal_cases)
  case 1
  with assms show ?case by simp
next
  case (2 d s1 r s')
  with assms have "r = Some AuthSuccess" and "s' = s"
    by (cases r; simp)+
  with 2(3) have "poll_loop (attempts env) (maxAttempts_of 2000 d) 0 s1 = (Some AuthSuccess, s)"
    by simp
  from poll_loop_result [OF this] obtain i tokenData where
    po: "poll_outcome (attempts env i) = Inr (TokenData tokenData)"
    and cr: "credentials s = credentials_of (date_now (attempts env i)) tokenData"
    and dk: "disk s = Some (credentials s)"
    by blast
  have "access_token (credentials s) = dt_access_token tokenData"
    and "expiry_date (credentials s) =
               (case dt_expires_in tokenData of
                  None \<Rightarrow> None
                | Some n \<Rightarrow> if n = 0 then None
                            else Some (date_now (attempts env i) + n * 1000))"
    by (simp_all add: cr credentials_of_def)
  with po dk show ?case by blast
qed

theorem device_flow_success_record_witness:
  "\<exists>i tokenData.
     poll_outcome (attempts (sample_flow backoff_attempts) i) = Inr (TokenData tokenData)
     \<and> access_token (credentials (snd
         (authWithDeltaDeviceFlow (sample_flow backoff_attempts) no_credentials None)))
         = dt_access_token tokenData
     \<and> expiry_date (credentials (snd
         (authWithDeltaDeviceFlow (sample_flow backoff_attempts) no_credentials None)))
         = (case dt_expires_in tokenData of
              None \<Rightarrow> None
            | Some n \<Rightarrow> if n = 0 then None else Some (date_now (attempts (sample_flow backoff_attempts) i)
                                 + n * 1000))
     \<and> disk (snd (authWithDeltaDeviceFlow (sample_flow backoff_attempts) no_credentials None))
         = Some (credentials (snd
             (authWithDeltaDeviceFlow (sample_flow backoff_attempts) no_credentials None)))"
proof -
  have "fst (authWithDeltaDeviceFlow (sample_flow backoff_attempts) no_credentials None)
      = AuthSuccess"
    using backoff_scenario [of "sample_flow backoff_attempts" sample_device_auth
        "\<lparr>slowDown = None\<rparr>" "\<lparr>slowDown = Some True\<rparr>" sample_token no_credentials None]
    by (simp add: sample_flow_def backoff_attempts_def sample_device_auth_def
          sample_attempt_def sample_token_def truthy_def quiet_def)
  then have "authWithDeltaDeviceFlow (sample_flow backoff_attempts) no_credentials None
      = (AuthSuccess,
         snd (authWithDeltaDeviceFlow (sample_flow backoff_attempts) no_credentials None))"
    by (simp add: prod_eq_iff)
  from device_flow_success_record [OF this] show ?thesis .
qed

text \<open>The claim as stated gives an expiry date whenever \<^verbatim>\<open>expires_in\<close> is
  present. With \<^verbatim>\<open>expires_in\<close> present and zero the guard
  \<^verbatim>\<open>tokenData.expires_in ? ... : undefined\<close> takes the second branch.\<close>

theorem zero_lifetime_counterexample:
  "fst (authWithDeltaDeviceFlow (sample_flow zero_lifetime_attempts) no_credentials None)
     = AuthSuccess
   \<and> dt_expires_in (sample_token\<lparr>dt_expires_in := Some 0\<rparr>) = Some 0
   \<and> expiry_date (credentials (snd
       (authWithDeltaDeviceFlow (sample_flow zero_lifetime_attempts) no_credentials None)))
       \<noteq> Some (date_now (zero_lifetime_attempts 0) + 0 * 1000)"
  by (simp add: authWithDeltaDeviceFlow_def sample_flow_def sample_device_auth_def
      maxAttempts_of_def poll_loop.simps poll_attempt_def zero_lifetime_attempts_def
      sample_attempt_def sample_token_def truthy_def cacheDeltaCredentials_def Let_def
      credentials_of_def)

section \<open>getValidCredentials\<close>

lemma isTokenValid_fresh: "0 \<le> t \<Longrightarrow> isTokenValid t c = fresh t c"
  by (auto simp: isTokenValid_def fresh_def TOKEN_REFRESH_BUFFER_MS_def split: option.splits)

lemma getValidCredentials_in_flight:
  "in_flight env = Some outcome \<Longrightarrow>
     getValidCredentials env forceRefresh cache store = (outcome, cache, store, [])"
  by (simp add: getValidCredentials_def)

lemma refresh_over_network_fetches:
  assumes "truthy (refresh_token cred)"
  shows "Client (Fetch QWEN_OAUTH_TOKEN_ENDPOINT)
           \<in> set (snd (snd (snd (refresh_over_network env cred cache store))))"
proof -
  obtain res c' f' effects where r: "refreshAccessToken (clock env) (unlink_fault env)
      (refresh_fetched env) cred (content store) = (res, c', f', effects)"
    by (metis prod_cases4)
  with assms have "Fetch QWEN_OAUTH_TOKEN_ENDPOINT \<in> set effects"
    by (auto simp: refreshAccessToken_def Response_text_def Response_json_def
        split: sum.splits if_splits option.splits prod.splits TokenRefreshResponse.splits)
  with r show ?thesis
    by (cases res) (auto simp: refresh_over_network_def)
qed

text \<open>
  C2. With no refresh in flight and \<open>cred\<close> the cached record after the staleness
  check: if \<^verbatim>\<open>forceRefresh\<close> is false and the expiry date of \<open>cred\<close> is more than
  30 seconds ahead of the clock, the call returns \<open>cred\<close> and performs no network
  call; if the expiry date is 30 seconds ahead or less, or in the past, the call
  takes the refresh path, which (with a refresh token in the record, the lock
  obtained and no refresh by another process in between) sends the refresh request.
\<close>

theorem getValidCredentials_freshness_buffer:
  assumes "in_flight env = None"
    and "cache_credentials (reload_if_newer (clock env) store cache) = Some cred"
  shows "(\<not> forceRefresh \<and> (\<exists>e. expiry_date cred = Some e \<and> clock env + 30 * 1000 < e) \<longrightarrow>
            getValidCredentials env forceRefresh cache store
              = (Inr cred, reload_if_newer (clock env) store cache, store, [])
            \<and> network_calls (snd (snd (snd
                (getValidCredentials env forceRefresh cache store)))) = 0)
       \<and> ((\<exists>e. expiry_date cred = Some e \<and> e \<le> clock env + 30 * 1000) \<longrightarrow>
            getValidCredentials env forceRefresh cache store
              = refresh_required env forceRefresh (reload_if_newer (clock env) store cache) store
            \<and> (truthy (refresh_token cred) \<and> lock_held env \<and> other_process env = None \<longrightarrow>
                 Client (Fetch QWEN_OAUTH_TOKEN_ENDPOINT)
                   \<in> set (snd (snd (snd (getValidCredentials env forceRefresh cache store))))))"
proof (intro conjI impI)
  assume "\<not> forceRefresh \<and> (\<exists>e. expiry_date cred = Some e \<and> clock env + 30 * 1000 < e)"
  with assms show "getValidCredentials env forceRefresh cache store
              = (Inr cred, reload_if_newer (clock env) store cache, store, [])"
    by (auto simp: getValidCredentials_def fresh_def Let_def)
  then show "network_calls (snd (snd (snd
                (getValidCredentials env forceRefresh cache store)))) = 0"
    by (simp add: network_calls_def)
next
  assume e: "\<exists>e. expiry_date cred = Some e \<and> e \<le> clock env + 30 * 1000"
  with assms show g: "getValidCredentials env forceRefresh cache store
      = refresh_required env forceRefresh (reload_if_newer (clock env) store cache) store"
    by (auto simp: getValidCredentials_def fresh_def Let_def)
  assume h: "truthy (refresh_token cred) \<and> lock_held env \<and> other_process env = None"
  let ?cache1 = "reload_if_newer (clock env) store cache"
  have idem: "reload_if_newer (clock env) store ?cache1 = ?cache1"
    by (auto simp: reload_if_newer_def split: option.splits)
  from e have nf: "\<not> fresh (clock env) cred" by (auto simp: fresh_def)
  from h assms(2) idem nf have "refresh_required env forceRefresh ?cache1 store
      = refresh_over_network env cred ?cache1 store"
    by (simp add: refresh_required_def Let_def)
  with g refresh_over_network_fetches [of cred env ?cache1 store] h
  show "Client (Fetch QWEN_OAUTH_TOKEN_ENDPOINT)
          \<in> set (snd (snd (snd (getValidCredentials env forceRefresh cache store))))"
    by simp
qed

theorem getValidCredentials_freshness_buffer_witness:
  "in_flight sample_manager_env = None
   \<and> getValidCredentials sample_manager_env False (sample_cache sample_credentials)
         (sample_store sample_credentials)
       = (Inr sample_credentials,
          reload_if_newer 50000 (sample_store sample_credentials)
            (sample_cache sample_credentials),
          sample_store sample_credentials, [])
   \<and> Client (Fetch QWEN_OAUTH_TOKEN_ENDPOINT)
       \<in> set (snd (snd (snd (getValidCredentials (sample_manager_env\<lparr>clock := 70000\<rparr>) False
            (sample_cache sample_credentials) (sample_store sample_credentials)))))"
proof -
  have i: "in_flight sample_manager_env = None"
    "in_flight (sample_manager_env\<lparr>clock := 70000\<rparr>) = None"
    by (simp_all add: sample_manager_env_def)
  have c: "cache_credentials (reload_if_newer (clock sample_manager_env)
      (sample_store sample_credentials) (sample_cache sample_credentials))
      = Some sample_credentials"
    "cache_credentials (reload_if_newer (clock (sample_manager_env\<lparr>clock := 70000\<rparr>))
      (sample_store sample_credentials) (sample_cache sample_credentials))
      = Some sample_credentials"
    by (simp_all add: reload_if_newer_def sample_store_def sample_cache_def)
  have e: "expiry_date sample_credentials = Some 100000"
    "truthy (refresh_token sample_credentials)"
    by (simp_all add: sample_credentials_def truthy_def)
  have k: "clock sample_manager_env = 50000" "lock_held sample_manager_env"
    "other_process sample_manager_env = None"
    by (simp_all add: sample_manager_env_def)
  have a: "getValidCredentials sample_manager_env False (sample_cache sample_credentials)
         (sample_store sample_credentials)
       = (Inr sample_credentials,
          reload_if_newer 50000 (sample_store sample_credentials)
            (sample_cache sample_credentials),
          sample_store sample_credentials, [])"
    using getValidCredentials_freshness_buffer [OF i(1) c(1), of False] e k by simp
  have b: "Client (Fetch QWEN_OAUTH_TOKEN_ENDPOINT)
       \<in> set (snd (snd (snd (getValidCredentials (sample_manager_env\<lparr>clock := 70000\<rparr>) False
            (sample_cache sample_credentials) (sample_store sample_credentials)))))"
  proof -
    have ex: "\<exists>e. expiry_date sample_credentials = Some e
        \<and> e \<le> clock (sample_manager_env\<lparr>clock := 70000\<rparr>) + 30 * 1000"
      by (simp add: e)
    have h: "truthy (refresh_token sample_credentials)
        \<and> lock_held (sample_manager_env\<lparr>clock := 70000\<rparr>)
        \<and> other_process (sample_manager_env\<lparr>clock := 70000\<rparr>) = None"
      by (simp add: e k)
    from getValidCredentials_freshness_buffer [OF i(2) c(2), of False, THEN conjunct2] ex h
    show ?thesis by blast
  qed
  from i(1) a b show ?thesis by blast
qed

text \<open>
  C3. With no refresh in flight, when a refresh is required (\<^verbatim>\<open>forceRefresh\<close>, or
  the cached record is not fresh) and the record has no refresh token, the call
  rejects with \<^verbatim>\<open>NO_REFRESH_TOKEN\<close> and has no effect at all: no lock, no
  network call. The client's own \<^verbatim>\<open>refreshAccessToken\<close> on such a record also
  throws before any request is sent.
\<close>

theorem getValidCredentials_no_refresh_token:
  assumes "in_flight env = None"
    and "cache_credentials (reload_if_newer (clock env) store cache) = Some cred"
    and "forceRefresh \<or> \<not> fresh (clock env) cred"
    and "\<not> truthy (refresh_token cred)"
  shows "getValidCredentials env forceRefresh cache store
           = (Inl NO_REFRESH_TOKEN, reload_if_newer (clock env) store cache, store, [])
       \<and> (\<exists>e. refreshAccessToken t fault fetched cred f = (Inl e, cred, f, []))"
  using assms
  by (auto simp: getValidCredentials_def refresh_required_def refreshAccessToken_def Let_def)

theorem getValidCredentials_no_refresh_token_witness:
  "in_flight (sample_manager_env\<lparr>clock := 70000\<rparr>) = None
   \<and> \<not> fresh 70000 (sample_credentials\<lparr>refresh_token := None\<rparr>)
   \<and> \<not> truthy (refresh_token (sample_credentials\<lparr>refresh_token := None\<rparr>))
   \<and> fst (getValidCredentials (sample_manager_env\<lparr>clock := 70000\<rparr>) False
           (sample_cache (sample_credentials\<lparr>refresh_token := None\<rparr>))
           (sample_store (sample_credentials\<lparr>refresh_token := None\<rparr>)))
       = Inl NO_REFRESH_TOKEN
   \<and> snd (snd (snd (getValidCredentials (sample_manager_env\<lparr>clock := 70000\<rparr>) False
           (sample_cache (sample_credentials\<lparr>refresh_token := None\<rparr>))
           (sample_store (sample_credentials\<lparr>refresh_token := None\<rparr>))))) = []"
proof -
  let ?c = "sample_credentials\<lparr>refresh_token := None\<rparr>"
  let ?env = "sample_manager_env\<lparr>clock := 70000\<rparr>"
  have i: "in_flight ?env = None" by (simp add: sample_manager_env_def)
  have c: "cache_credentials (reload_if_newer (clock ?env) (sample_store ?c) (sample_cache ?c))
      = Some ?c"
    by (simp add: reload_if_newer_def sample_store_def sample_cache_def)
  have f: "\<not> fresh 70000 ?c" by (simp add: fresh_def sample_credentials_def)
  then have f': "False \<or> \<not> fresh (clock ?env) ?c" by simp
  have r: "\<not> truthy (refresh_token ?c)" by (simp add: truthy_def)
  from getValidCredentials_no_refresh_token [OF i c f' r] i f r show ?thesis
    by simp
qed

end
